theory Spec2Isabelle
  imports Main
begin

section \<open>Values, documents and the document store\<close>

text \<open>
  The managers receive JavaScript values. A request field is \<^emph>\<open>undefined\<close> when the caller
  leaves it out, may be \<^emph>\<open>null\<close>, or is a string; a reference read back from a stored
  document is an ObjectId. The code tests these values for truthiness (\<open>!x\<close>, \<open>x && ...\<close>,
  \<open>x || y\<close>), compares them with \<open>!==\<close> and turns them into strings with \<open>toString()\<close>.
\<close>

datatype jsval = Undefined | Null | Str string | ObjId string

fun truthy :: "jsval \<Rightarrow> bool" where
  "truthy Undefined = False"
| "truthy Null = False"
| "truthy (Str s) = (s \<noteq> [])"
| "truthy (ObjId i) = True"

text \<open>\<open>x.toString()\<close>; the code calls it only on values it has found truthy, or on a
  reference that led to a document. \<open>None\<close> stands for the call on undefined or null.\<close>

fun idString :: "jsval \<Rightarrow> string option" where
  "idString Undefined = None"
| "idString Null = None"
| "idString (Str s) = Some s"
| "idString (ObjId i) = Some i"

definition toString :: "jsval \<Rightarrow> string" where
  "toString v = (case idString v of Some s \<Rightarrow> s | None \<Rightarrow> [])"

text \<open>A value spliced into a template literal (\<open>`^${name}$`\<close>).\<close>

fun templateString :: "jsval \<Rightarrow> string" where
  "templateString Undefined = ''undefined''"
| "templateString Null = ''null''"
| "templateString (Str s) = s"
| "templateString (ObjId i) = i"

text \<open>The decoded token \<open>__longToken\<close>: \<open>{userId, role, schoolId}\<close>. An unauthenticated
  call has no token (\<open>None\<close>).\<close>

record token =
  tok_userId :: string
  tok_role :: string
  tok_schoolId :: jsval

text \<open>The three collections. References (\<open>ObjectId\<close> fields) are kept as their hex strings;
  an optional reference that is not set is \<open>None\<close>.\<close>

record school =
  sch_id :: string
  sch_name :: jsval
  sch_address :: jsval
  sch_phone :: jsval
  sch_email :: jsval
  sch_principal :: jsval
  sch_establishedYear :: "int option"
  sch_isActive :: bool
  sch_createdBy :: string

record classroom =
  cls_id :: string
  cls_name :: jsval
  cls_schoolId :: string
  cls_capacity :: int
  cls_grade :: jsval
  cls_section :: jsval
  cls_resources :: "string list"
  cls_academicYear :: jsval
  cls_isActive :: bool
  cls_createdBy :: string

record transferRecord =
  fromSchool :: string
  toSchool :: string
  fromClassroom :: "string option"
  toClassroom :: "string option"
  date :: nat
  reason :: string

record student =
  stu_id :: string
  stu_firstName :: jsval
  stu_lastName :: jsval
  stu_email :: jsval
  stu_dateOfBirth :: jsval
  stu_gender :: jsval
  stu_schoolId :: string
  stu_classroomId :: "string option"
  stu_enrollmentDate :: nat
  stu_guardianName :: jsval
  stu_guardianPhone :: jsval
  stu_guardianEmail :: jsval
  stu_address :: jsval
  stu_isActive :: bool
  stu_transferHistory :: "transferRecord list"
  stu_createdBy :: string

text \<open>The store: each collection in creation order (\<open>create\<close> appends).\<close>

record store =
  schools :: "school list"
  classrooms :: "classroom list"
  students :: "student list"

text \<open>What a manager method returns when it does not succeed: \<open>{error, code?}\<close>, the two
  errors that carry counts, \<open>{errors}\<close> from the validator, or an exception that leaves
  the method.\<close>

datatype failure =
    Failure string "nat option"
  | SchoolInUse string nat nat
  | ClassroomInUse string nat
  | Invalid "string list"
  | Thrown string

subsection \<open>Persistence operations\<close>

text \<open>\<open>Model.findById(id)\<close>: the document with that \<open>_id\<close>, or null; no document is found
  for undefined or null.\<close>

definition findById :: "('a \<Rightarrow> string) \<Rightarrow> 'a list \<Rightarrow> jsval \<Rightarrow> 'a option" where
  "findById idf xs v =
     (case idString v of None \<Rightarrow> None | Some i \<Rightarrow> find (\<lambda>x. idf x = i) xs)"

text \<open>\<open>doc.save()\<close> of a document read from the collection: it replaces the stored
  document with the same \<open>_id\<close>.\<close>

definition saveDoc :: "('a \<Rightarrow> string) \<Rightarrow> 'a \<Rightarrow> 'a list \<Rightarrow> 'a list" where
  "saveDoc idf d xs = map (\<lambda>x. if idf x = idf d then d else x) xs"

text \<open>\<open>student.countDocuments({classroomId, isActive: true})\<close> and
  \<open>countDocuments({schoolId, isActive: true})\<close> on students and classrooms.\<close>

definition countActiveInClassroom :: "store \<Rightarrow> string \<Rightarrow> nat" where
  "countActiveInClassroom st c =
     length (filter (\<lambda>s. stu_classroomId s = Some c \<and> stu_isActive s) (students st))"

definition countActiveStudentsOfSchool :: "store \<Rightarrow> string \<Rightarrow> nat" where
  "countActiveStudentsOfSchool st i =
     length (filter (\<lambda>s. stu_schoolId s = i \<and> stu_isActive s) (students st))"

definition countActiveClassroomsOfSchool :: "store \<Rightarrow> string \<Rightarrow> nat" where
  "countActiveClassroomsOfSchool st i =
     length (filter (\<lambda>c. cls_schoolId c = i \<and> cls_isActive c) (classrooms st))"

text \<open>A reference field set from a request value: Mongoose casts the string to an
  ObjectId and keeps undefined and null as no reference. The empty string, which is no
  ObjectId, is taken as no reference as well: a falsy value never becomes a stored
  reference.\<close>

definition castRef :: "jsval \<Rightarrow> string option" where
  "castRef v = (if truthy v then idString v else None)"

text \<open>The pre-save middleware of the Student model: when the document has a classroom and
  that path was modified, the classroom must exist and belong to the student's school;
  otherwise \<open>save\<close> (and \<open>create\<close>, which saves) throws.\<close>

definition preSave :: "store \<Rightarrow> bool \<Rightarrow> student \<Rightarrow> string option" where
  "preSave st isModified d =
     (case stu_classroomId d of
        None \<Rightarrow> None
      | Some c \<Rightarrow>
          if \<not> isModified then None
          else (case findById cls_id (classrooms st) (ObjId c) of
                  None \<Rightarrow> Some ''Classroom not found''
                | Some classroom \<Rightarrow>
                    if cls_schoolId classroom \<noteq> stu_schoolId d
                    then Some ''Classroom does not belong to the specified school''
                    else None))"

section \<open>Student manager\<close>

text \<open>\<open>token.schoolId ? token.schoolId.toString() : null\<close>\<close>

definition tokenSchoolId :: "token \<Rightarrow> string option" where
  "tokenSchoolId t = (if truthy (tok_schoolId t) then idString (tok_schoolId t) else None)"

definition Student_checkSchoolAccess :: "token option \<Rightarrow> jsval \<Rightarrow> failure option" where
  "Student_checkSchoolAccess tok schoolId =
     (case tok of
        None \<Rightarrow> Some (Failure ''Authentication required'' (Some 401))
      | Some t \<Rightarrow>
          if tok_role t = ''superadmin'' then None
          else if tok_role t = ''school_admin'' then
            (if \<not> truthy schoolId then None
             else if tokenSchoolId t \<noteq> Some (toString schoolId)
             then Some (Failure ''Access denied. You can only access students in your assigned school.'' (Some 403))
             else None)
          else Some (Failure ''Access denied.'' (Some 403)))"

definition Student_getEffectiveSchoolId :: "token option \<Rightarrow> jsval \<Rightarrow> jsval" where
  "Student_getEffectiveSchoolId tok requestedSchoolId =
     (case tok of
        None \<Rightarrow> requestedSchoolId
      | Some t \<Rightarrow> if tok_role t = ''superadmin'' then requestedSchoolId else tok_schoolId t)"

text \<open>The fields of a student that \<open>createStudent\<close> hands to the validator and that
  \<open>updateStudent\<close> may replace.\<close>

record studentData =
  in_firstName :: jsval
  in_lastName :: jsval
  in_email :: jsval
  in_dateOfBirth :: jsval
  in_gender :: jsval
  in_guardianName :: jsval
  in_guardianPhone :: jsval
  in_guardianEmail :: jsval
  in_address :: jsval

text \<open>The classroom checks of \<open>createStudent\<close> (the block under
  \<open>if (classroomId)\<close>): the classroom exists, is active, belongs to the effective school
  and has fewer active students than its capacity.\<close>

definition enrolClassroomCheck :: "store \<Rightarrow> jsval \<Rightarrow> jsval \<Rightarrow> failure option" where
  "enrolClassroomCheck st classroomId effectiveSchoolId =
     (if \<not> truthy classroomId then None
      else case findById cls_id (classrooms st) classroomId of
        None \<Rightarrow> Some (Failure ''Classroom not found'' None)
      | Some classroom \<Rightarrow>
          if \<not> cls_isActive classroom
          then Some (Failure ''Cannot enroll student in an inactive classroom'' None)
          else if cls_schoolId classroom \<noteq> toString effectiveSchoolId
          then Some (Failure ''Classroom does not belong to the specified school'' None)
          else if int (countActiveInClassroom st (toString classroomId)) \<ge> cls_capacity classroom
          then Some (Failure ''Classroom is at full capacity'' None)
          else None)"

text \<open>\<open>createStudent\<close>. The validator is the external collaborator
  \<open>validators.student.createStudent\<close> (it returns the list of errors, or nothing);
  \<open>newId\<close> is the \<open>_id\<close> the store gives the new document and \<open>now\<close> the clock
  (\<open>new Date(dateOfBirth)\<close> keeps the value it is given). The result is what the method
  returns, with the store after the call.\<close>

definition createStudent ::
  "(studentData \<Rightarrow> string list option) \<Rightarrow> string \<Rightarrow> nat \<Rightarrow> store \<Rightarrow>
     jsval \<Rightarrow> jsval \<Rightarrow> studentData \<Rightarrow> token option \<Rightarrow> (failure + student) \<times> store" where
  "createStudent validate newId now st schoolId classroomId d tok =
     (case tok of
        None \<Rightarrow> (Inl (Failure ''Authentication required'' (Some 401)), st)
      | Some t \<Rightarrow>
       (if tok_role t = ''school_admin'' \<and> truthy schoolId \<and> Some (toString schoolId) \<noteq> tokenSchoolId t
        then (Inl (Failure ''Access denied. You can only access students in your assigned school.'' (Some 403)), st)
        else
        (let effectiveSchoolId = Student_getEffectiveSchoolId tok schoolId in
        (case Student_checkSchoolAccess tok effectiveSchoolId of
          Some authError \<Rightarrow> (Inl authError, st)
        | None \<Rightarrow>
         (if tok_role t = ''superadmin'' \<and> \<not> truthy effectiveSchoolId
          then (Inl (Failure ''School ID is required for superadmin'' None), st)
          else
          (case validate d of
            Some result \<Rightarrow> (Inl (Invalid result), st)
          | None \<Rightarrow>
           (case findById sch_id (schools st) effectiveSchoolId of
              None \<Rightarrow> (Inl (Failure ''School not found'' None), st)
            | Some school \<Rightarrow>
             (if \<not> sch_isActive school
              then (Inl (Failure ''Cannot enroll student in an inactive school'' None), st)
              else
              (case enrolClassroomCheck st classroomId effectiveSchoolId of
                Some e \<Rightarrow> (Inl e, st)
              | None \<Rightarrow>
               (if truthy (in_email d) \<and> find (\<lambda>s. stu_email s = in_email d) (students st) \<noteq> None
                then (Inl (Failure ''A student with this email already exists'' None), st)
                else
                (let createdStudent = \<lparr>
                      stu_id = newId,
                      stu_firstName = in_firstName d,
                      stu_lastName = in_lastName d,
                      stu_email = in_email d,
                      stu_dateOfBirth = (if truthy (in_dateOfBirth d) then in_dateOfBirth d else Undefined),
                      stu_gender = in_gender d,
                      stu_schoolId = toString effectiveSchoolId,
                      stu_classroomId = castRef classroomId,
                      stu_enrollmentDate = now,
                      stu_guardianName = in_guardianName d,
                      stu_guardianPhone = in_guardianPhone d,
                      stu_guardianEmail = in_guardianEmail d,
                      stu_address = in_address d,
                      stu_isActive = True,
                      stu_transferHistory = [],
                      stu_createdBy = tok_userId t \<rparr>
                 in (case preSave st True createdStudent of
                       Some msg \<Rightarrow> (Inl (Thrown msg), st)
                     | None \<Rightarrow>
                        (Inr createdStudent,
                         st\<lparr>students := students st @ [createdStudent]\<rparr>)))))))))))))"

text \<open>\<open>getStudents\<close>. \<open>rx pattern value\<close> is the store's case-insensitive \<open>$regex\<close> match.
  A filter flag arrives as a boolean or as a query string. \<open>page\<close> and \<open>limit\<close> are what
  \<open>parseInt\<close> reads (\<open>None\<close> for NaN); the defaults 1 and 10 stand for an argument left
  out. Newest first is the reverse of creation order. The documents are returned as
  stored (\<open>populate\<close> only decorates their references).\<close>

datatype flag = NoFlag | BoolFlag bool | StrFlag string

record pagination =
  pg_page :: int
  pg_limit :: int
  pg_total :: nat
  pg_pages :: int

definition pageNumOf :: "int option \<Rightarrow> int" where
  "pageNumOf page = max 1 (case page of None \<Rightarrow> 1 | Some p \<Rightarrow> if p = 0 then 1 else p)"

definition limitNumOf :: "int option \<Rightarrow> int" where
  "limitNumOf limit = min 100 (max 1 (case limit of None \<Rightarrow> 10 | Some l \<Rightarrow> if l = 0 then 10 else l))"

definition paginate :: "int option \<Rightarrow> int option \<Rightarrow> 'a list \<Rightarrow> 'a list \<times> pagination" where
  "paginate page limit matching =
     (let pageNum = pageNumOf page;
          limitNum = limitNumOf limit;
          skip = (pageNum - 1) * limitNum;
          total = length matching
      in (take (nat limitNum) (drop (nat skip) (rev matching)),
          \<lparr> pg_page = pageNum, pg_limit = limitNum, pg_total = total,
            pg_pages = (int total + limitNum - 1) div limitNum \<rparr>))"

definition flagValue :: "flag \<Rightarrow> bool" where
  "flagValue isActive = (isActive = StrFlag ''true'' \<or> isActive = BoolFlag True)"

definition getStudents ::
  "(string \<Rightarrow> jsval \<Rightarrow> bool) \<Rightarrow> store \<Rightarrow> jsval \<Rightarrow> jsval \<Rightarrow> int option \<Rightarrow> int option \<Rightarrow>
     jsval \<Rightarrow> jsval \<Rightarrow> flag \<Rightarrow> token option \<Rightarrow> failure + (student list \<times> pagination)" where
  "getStudents rx st schoolId classroomId page limit search gender isActive tok =
     (let effectiveSchoolId = Student_getEffectiveSchoolId tok schoolId in
      case Student_checkSchoolAccess tok effectiveSchoolId of
        Some authError \<Rightarrow> Inl authError
      | None \<Rightarrow>
        (case tok of
           None \<Rightarrow> Inl (Thrown ''TypeError'')
         | Some t \<Rightarrow>
           let query = (\<lambda>s.
                 (if tok_role t = ''school_admin'' then Some (stu_schoolId s) = idString (tok_schoolId t)
                  else if truthy effectiveSchoolId then stu_schoolId s = toString effectiveSchoolId
                  else True)
               \<and> (if truthy classroomId then stu_classroomId s = Some (toString classroomId) else True)
               \<and> (if isActive \<noteq> NoFlag then stu_isActive s = flagValue isActive else True)
               \<and> (if truthy search
                  then rx (toString search) (stu_firstName s) \<or> rx (toString search) (stu_lastName s)
                       \<or> rx (toString search) (stu_email s)
                  else True)
               \<and> (if truthy gender then stu_gender s = Str (toString gender) else True))
           in Inr (paginate page limit (filter query (students st)))))"

text \<open>\<open>if (x !== undefined) doc.x = x\<close>\<close>

definition setIfDefined :: "jsval \<Rightarrow> jsval \<Rightarrow> jsval" where
  "setIfDefined new old = (if new \<noteq> Undefined then new else old)"

text \<open>The classroom checks of \<open>updateStudent\<close> (the block under
  \<open>if (classroomId && classroomId !== student.classroomId?.toString())\<close>).\<close>

definition moveClassroomCheck :: "store \<Rightarrow> jsval \<Rightarrow> student \<Rightarrow> failure option" where
  "moveClassroomCheck st classroomId student =
     (if \<not> (truthy classroomId \<and>
             classroomId \<noteq> (case stu_classroomId student of None \<Rightarrow> Undefined | Some c \<Rightarrow> Str c))
      then None
      else case findById cls_id (classrooms st) classroomId of
        None \<Rightarrow> Some (Failure ''Classroom not found'' None)
      | Some classroom \<Rightarrow>
          if \<not> cls_isActive classroom
          then Some (Failure ''Cannot move student to an inactive classroom'' None)
          else if cls_schoolId classroom \<noteq> stu_schoolId student
          then Some (Failure ''Use transferStudent to move student to a different school's classroom'' None)
          else if int (countActiveInClassroom st (toString classroomId)) \<ge> cls_capacity classroom
          then Some (Failure ''Target classroom is at full capacity'' None)
          else None)"

text \<open>\<open>updateStudent\<close>: \<open>d\<close> holds the nine text fields of the request, \<open>isActive\<close> is
  \<open>None\<close> when the request leaves it out.\<close>

definition updateStudent ::
  "store \<Rightarrow> jsval \<Rightarrow> studentData \<Rightarrow> jsval \<Rightarrow> bool option \<Rightarrow> token option \<Rightarrow>
     (failure + student) \<times> store" where
  "updateStudent st studentId d classroomId isActive tok =
     (case tok of
        None \<Rightarrow> (Inl (Failure ''Authentication required'' (Some 401)), st)
      | Some t \<Rightarrow>
       (if \<not> truthy studentId then (Inl (Failure ''Student ID is required'' None), st)
        else
        (case findById stu_id (students st) studentId of
          None \<Rightarrow> (Inl (Failure ''Student not found'' None), st)
        | Some student \<Rightarrow>
         (case Student_checkSchoolAccess tok (ObjId (stu_schoolId student)) of
            Some authError \<Rightarrow> (Inl authError, st)
          | None \<Rightarrow>
           (if truthy (in_email d) \<and> in_email d \<noteq> stu_email student \<and>
               find (\<lambda>s. stu_id s \<noteq> toString studentId \<and> stu_email s = in_email d) (students st) \<noteq> None
            then (Inl (Failure ''A student with this email already exists'' None), st)
            else
            (case moveClassroomCheck st classroomId student of
              Some e \<Rightarrow> (Inl e, st)
            | None \<Rightarrow>
             (let student' = student\<lparr>
                    stu_firstName := setIfDefined (in_firstName d) (stu_firstName student),
                    stu_lastName := setIfDefined (in_lastName d) (stu_lastName student),
                    stu_email := setIfDefined (in_email d) (stu_email student),
                    stu_dateOfBirth :=
                      (if in_dateOfBirth d \<noteq> Undefined
                       then (if truthy (in_dateOfBirth d) then in_dateOfBirth d else Null)
                       else stu_dateOfBirth student),
                    stu_gender := setIfDefined (in_gender d) (stu_gender student),
                    stu_classroomId :=
                      (if classroomId \<noteq> Undefined then castRef classroomId
                       else stu_classroomId student),
                    stu_guardianName := setIfDefined (in_guardianName d) (stu_guardianName student),
                    stu_guardianPhone := setIfDefined (in_guardianPhone d) (stu_guardianPhone student),
                    stu_guardianEmail := setIfDefined (in_guardianEmail d) (stu_guardianEmail student),
                    stu_address := setIfDefined (in_address d) (stu_address student),
                    stu_isActive := (case isActive of None \<Rightarrow> stu_isActive student | Some b \<Rightarrow> b) \<rparr>
              in (case preSave st (stu_classroomId student' \<noteq> stu_classroomId student) student' of
                    Some msg \<Rightarrow> (Inl (Thrown msg), st)
                  | None \<Rightarrow>
                     (Inr student', st\<lparr>students := saveDoc stu_id student' (students st)\<rparr>)))))))))"

text \<open>\<open>deleteStudent\<close>: the soft delete, which also clears the classroom.\<close>

definition deleteStudent ::
  "store \<Rightarrow> jsval \<Rightarrow> token option \<Rightarrow> (failure + string \<times> student) \<times> store" where
  "deleteStudent st studentId tok =
     (case tok of
        None \<Rightarrow> (Inl (Failure ''Authentication required'' (Some 401)), st)
      | Some t \<Rightarrow>
       (if \<not> truthy studentId then (Inl (Failure ''Student ID is required'' None), st)
        else
        (case findById stu_id (students st) studentId of
          None \<Rightarrow> (Inl (Failure ''Student not found'' None), st)
        | Some student \<Rightarrow>
         (case Student_checkSchoolAccess tok (ObjId (stu_schoolId student)) of
            Some authError \<Rightarrow> (Inl authError, st)
          | None \<Rightarrow>
           (if \<not> stu_isActive student
            then (Inl (Failure ''Student is already unenrolled'' None), st)
            else
             (let student' = student\<lparr>stu_isActive := False, stu_classroomId := None\<rparr>
              in (case preSave st (stu_classroomId student' \<noteq> stu_classroomId student) student' of
                    Some msg \<Rightarrow> (Inl (Thrown msg), st)
                  | None \<Rightarrow>
                     (Inr (''Student unenrolled successfully'', student'),
                      st\<lparr>students := saveDoc stu_id student' (students st)\<rparr>))))))))"

text \<open>\<open>transferStudent\<close>. The student is read with its school and classroom populated;
  \<open>student.schoolId._id || student.schoolId\<close> and \<open>student.classroomId?._id || student.classroomId\<close>
  read the stored references back (documents are never removed from the store, so a
  populated reference has the \<open>_id\<close> that was stored). The two target checks follow.\<close>

definition targetSchoolCheck :: "store \<Rightarrow> jsval \<Rightarrow> failure option" where
  "targetSchoolCheck st toSchoolId =
     (if \<not> truthy toSchoolId then None
      else case findById sch_id (schools st) toSchoolId of
        None \<Rightarrow> Some (Failure ''Target school not found'' None)
      | Some targetSchool \<Rightarrow>
          if \<not> sch_isActive targetSchool
          then Some (Failure ''Cannot transfer student to an inactive school'' None)
          else None)"

definition targetClassroomCheck :: "store \<Rightarrow> jsval \<Rightarrow> jsval \<Rightarrow> failure + classroom option" where
  "targetClassroomCheck st toClassroomId targetSchoolId =
     (if \<not> truthy toClassroomId then Inr None
      else case findById cls_id (classrooms st) toClassroomId of
        None \<Rightarrow> Inl (Failure ''Target classroom not found'' None)
      | Some targetClassroom \<Rightarrow>
          if \<not> cls_isActive targetClassroom
          then Inl (Failure ''Cannot transfer student to an inactive classroom'' None)
          else if cls_schoolId targetClassroom \<noteq> toString targetSchoolId
          then Inl (Failure ''Target classroom does not belong to the target school'' None)
          else if int (countActiveInClassroom st (toString toClassroomId)) \<ge> cls_capacity targetClassroom
          then Inl (Failure ''Target classroom is at full capacity'' None)
          else Inr (Some targetClassroom))"

text \<open>The name a populated reference shows (\<open>student.schoolId?.name\<close>), and \<open>a || b\<close>.\<close>

definition schoolName :: "store \<Rightarrow> string \<Rightarrow> jsval" where
  "schoolName st i =
     (case findById sch_id (schools st) (ObjId i) of None \<Rightarrow> Undefined | Some s \<Rightarrow> sch_name s)"

definition orElse :: "jsval \<Rightarrow> jsval \<Rightarrow> jsval" where
  "orElse a b = (if truthy a then a else b)"

record transferSummary =
  from_school :: jsval
  from_classroom :: jsval
  to_school :: jsval
  to_classroom :: jsval

record transferResult =
  tr_message :: string
  tr_student :: "student option"
  tr_transfer :: transferSummary

definition transferStudent ::
  "nat \<Rightarrow> store \<Rightarrow> jsval \<Rightarrow> jsval \<Rightarrow> jsval \<Rightarrow> jsval \<Rightarrow> token option \<Rightarrow>
     (failure + transferResult) \<times> store" where
  "transferStudent now st studentId toSchoolId toClassroomId reasonArg tok =
     (case tok of
        None \<Rightarrow> (Inl (Failure ''Authentication required'' (Some 401)), st)
      | Some t \<Rightarrow>
       (if \<not> truthy studentId then (Inl (Failure ''Student ID is required'' None), st)
        else if \<not> truthy toSchoolId \<and> \<not> truthy toClassroomId
        then (Inl (Failure ''At least one of toSchoolId or toClassroomId is required'' None), st)
        else
        (case findById stu_id (students st) studentId of
          None \<Rightarrow> (Inl (Failure ''Student not found'' None), st)
        | Some student \<Rightarrow>
         (if \<not> stu_isActive student
          then (Inl (Failure ''Cannot transfer an inactive student'' None), st)
          else
          (let fromSchoolId = stu_schoolId student;
               fromClassroomId = stu_classroomId student;
               targetSchoolId = orElse toSchoolId (Str fromSchoolId)
           in
           (case Student_checkSchoolAccess tok (ObjId fromSchoolId) of
              Some sourceAuthError \<Rightarrow> (Inl sourceAuthError, st)
            | None \<Rightarrow>
             (let isCrossSchoolTransfer = (truthy toSchoolId \<and> toSchoolId \<noteq> Str fromSchoolId) in
              if isCrossSchoolTransfer \<and> tok_role t \<noteq> ''superadmin''
              then (Inl (Failure ''Only superadmins can transfer students between schools'' (Some 403)), st)
              else
              (case targetSchoolCheck st toSchoolId of
                 Some e \<Rightarrow> (Inl e, st)
               | None \<Rightarrow>
                (case targetClassroomCheck st toClassroomId targetSchoolId of
                   Inl e \<Rightarrow> (Inl e, st)
                 | Inr targetClassroom \<Rightarrow>
                  (let transferEntry = \<lparr>
                         fromSchool = fromSchoolId,
                         toSchool = toString (orElse toSchoolId (ObjId fromSchoolId)),
                         fromClassroom = fromClassroomId,
                         toClassroom = castRef toClassroomId,
                         date = now,
                         reason = toString (orElse reasonArg (Str [])) \<rparr>;
                       student' = student\<lparr>
                         stu_schoolId := (if truthy toSchoolId then toString toSchoolId else fromSchoolId),
                         stu_classroomId := castRef toClassroomId,
                         stu_transferHistory := stu_transferHistory student @ [transferEntry] \<rparr>
                   in
                   (case preSave st (stu_classroomId student' \<noteq> stu_classroomId student) student' of
                      Some msg \<Rightarrow> (Inl (Thrown msg), st)
                    | None \<Rightarrow>
                     (let st' = st\<lparr>students := saveDoc stu_id student' (students st)\<rparr> in
                      (Inr \<lparr>
                         tr_message = ''Student transferred successfully'',
                         tr_student = findById stu_id (students st') studentId,
                         tr_transfer = \<lparr>
                           from_school =
                             orElse (if truthy toSchoolId then Undefined else schoolName st fromSchoolId)
                                    (ObjId fromSchoolId),
                           from_classroom =
                             (case fromClassroomId of None \<Rightarrow> Null | Some c \<Rightarrow> ObjId c),
                           to_school =
                             (if truthy toSchoolId then schoolName st' (toString toSchoolId)
                              else schoolName st fromSchoolId),
                           to_classroom =
                             (case targetClassroom of
                                None \<Rightarrow> Null
                              | Some c \<Rightarrow> orElse (cls_name c) Null) \<rparr> \<rparr>,
                       st')))))))))))))"

section \<open>School manager\<close>

definition checkSuperadminAccess :: "token option \<Rightarrow> failure option" where
  "checkSuperadminAccess tok =
     (case tok of
        None \<Rightarrow> Some (Failure ''Authentication required'' (Some 401))
      | Some t \<Rightarrow>
          if tok_role t \<noteq> ''superadmin''
          then Some (Failure ''Access denied. Only superadmins can manage schools.'' (Some 403))
          else None)"

text \<open>\<open>updateSchool\<close>. \<open>regExp pattern\<close> is \<open>new RegExp(pattern, 'i')\<close>: the matcher of the
  compiled expression, or \<open>None\<close> when the constructor throws a SyntaxError (a name that is
  no valid pattern), which leaves the method as an exception. \<open>establishedYear\<close> and
  \<open>isActive\<close> are \<open>None\<close> when left out.\<close>

definition updateSchool ::
  "(string \<Rightarrow> (jsval \<Rightarrow> bool) option) \<Rightarrow> store \<Rightarrow> jsval \<Rightarrow> jsval \<Rightarrow> jsval \<Rightarrow> jsval \<Rightarrow> jsval \<Rightarrow> jsval \<Rightarrow>
     int option \<Rightarrow> bool option \<Rightarrow> token option \<Rightarrow> (failure + school) \<times> store" where
  "updateSchool regExp st schoolId name address phone email principal' establishedYear isActive tok =
     (case checkSuperadminAccess tok of
        Some authError \<Rightarrow> (Inl authError, st)
      | None \<Rightarrow>
       (if \<not> truthy schoolId then (Inl (Failure ''School ID is required'' None), st)
        else
        (case findById sch_id (schools st) schoolId of
           None \<Rightarrow> (Inl (Failure ''School not found'' None), st)
         | Some school \<Rightarrow>
          (case (if truthy name \<and> name \<noteq> sch_name school
                 then (case regExp (''^'' @ templateString name @ ''$'') of
                         None \<Rightarrow> Some (Thrown ''SyntaxError'')
                       | Some matches \<Rightarrow>
                           if find (\<lambda>x. sch_id x \<noteq> toString schoolId \<and>
                                        matches (sch_name x) \<and> sch_isActive x)
                                (schools st) \<noteq> None
                           then Some (Failure ''A school with this name already exists'' None)
                           else None)
                 else None) of
             Some e \<Rightarrow> (Inl e, st)
           | None \<Rightarrow>
           (let school' = school\<lparr>
                  sch_name := setIfDefined name (sch_name school),
                  sch_address := setIfDefined address (sch_address school),
                  sch_phone := setIfDefined phone (sch_phone school),
                  sch_email := setIfDefined email (sch_email school),
                  sch_principal := setIfDefined principal' (sch_principal school),
                  sch_establishedYear :=
                    (case establishedYear of None \<Rightarrow> sch_establishedYear school | Some y \<Rightarrow> Some y),
                  sch_isActive := (case isActive of None \<Rightarrow> sch_isActive school | Some b \<Rightarrow> b) \<rparr>
            in (Inr school', st\<lparr>schools := saveDoc sch_id school' (schools st)\<rparr>))))))"

definition deleteSchool ::
  "store \<Rightarrow> jsval \<Rightarrow> token option \<Rightarrow> (failure + string \<times> school) \<times> store" where
  "deleteSchool st schoolId tok =
     (case checkSuperadminAccess tok of
        Some authError \<Rightarrow> (Inl authError, st)
      | None \<Rightarrow>
       (if \<not> truthy schoolId then (Inl (Failure ''School ID is required'' None), st)
        else
        (case findById sch_id (schools st) schoolId of
           None \<Rightarrow> (Inl (Failure ''School not found'' None), st)
         | Some school \<Rightarrow>
          (if \<not> sch_isActive school
           then (Inl (Failure ''School is already inactive'' None), st)
           else
           (let activeClassrooms = countActiveClassroomsOfSchool st (toString schoolId);
                activeStudents = countActiveStudentsOfSchool st (toString schoolId)
            in if activeClassrooms > 0 \<or> activeStudents > 0
               then (Inl (SchoolInUse
                       ''Cannot delete school with active classrooms or students. Please deactivate or transfer them first.''
                       activeClassrooms activeStudents), st)
               else
               (let school' = school\<lparr>sch_isActive := False\<rparr>
                in (Inr (''School deleted successfully'', school'),
                    st\<lparr>schools := saveDoc sch_id school' (schools st)\<rparr>)))))))"

section \<open>Classroom manager\<close>

definition Classroom_checkSchoolAccess :: "token option \<Rightarrow> jsval \<Rightarrow> failure option" where
  "Classroom_checkSchoolAccess tok schoolId =
     (case tok of
        None \<Rightarrow> Some (Failure ''Authentication required'' (Some 401))
      | Some t \<Rightarrow>
          if tok_role t = ''superadmin'' then None
          else if tok_role t = ''school_admin'' then
            (if \<not> truthy schoolId then None
             else if tokenSchoolId t \<noteq> Some (toString schoolId)
             then Some (Failure ''Access denied. You can only access your assigned school.'' (Some 403))
             else None)
          else Some (Failure ''Access denied.'' (Some 403)))"

text \<open>The Classroom manager's \<open>_getEffectiveSchoolId\<close> reads \<open>token.role\<close> with no test of
  the token: without a token the read throws a TypeError.\<close>

definition Classroom_getEffectiveSchoolId :: "token option \<Rightarrow> jsval \<Rightarrow> failure + jsval" where
  "Classroom_getEffectiveSchoolId tok requestedSchoolId =
     (case tok of
        None \<Rightarrow> Inl (Thrown ''TypeError'')
      | Some t \<Rightarrow> Inr (if tok_role t = ''superadmin'' then requestedSchoolId else tok_schoolId t))"

record classroomData =
  cd_name :: jsval
  cd_capacity :: int
  cd_grade :: jsval
  cd_section :: jsval
  cd_resources :: "string list option"
  cd_academicYear :: jsval

text \<open>\<open>createClassroom\<close>. \<open>validate\<close> is \<open>validators.classroom.createClassroom\<close>;
  \<open>schemaErrors\<close> is the model's own validation, whose \<open>ValidationError\<close> the method
  catches and returns as \<open>{errors}\<close>; \<open>regExp\<close> is \<open>new RegExp(pattern, 'i')\<close> as in
  \<open>updateSchool\<close>, built outside the \<open>try\<close>, so that its SyntaxError leaves the method.\<close>

definition createClassroom ::
  "(classroomData \<Rightarrow> string list option) \<Rightarrow> (classroom \<Rightarrow> string list option) \<Rightarrow>
     (string \<Rightarrow> (jsval \<Rightarrow> bool) option) \<Rightarrow> string \<Rightarrow> store \<Rightarrow> jsval \<Rightarrow> classroomData \<Rightarrow>
     token option \<Rightarrow> (failure + classroom) \<times> store" where
  "createClassroom validate schemaErrors regExp newId st schoolId d tok =
     (case tok of
        None \<Rightarrow> (Inl (Failure ''Authentication required'' (Some 401)), st)
      | Some t \<Rightarrow>
       (if tok_role t = ''school_admin'' \<and> truthy schoolId \<and> Some (toString schoolId) \<noteq> tokenSchoolId t
        then (Inl (Failure ''Access denied. You can only access your assigned school.'' (Some 403)), st)
        else
        (case Classroom_getEffectiveSchoolId tok schoolId of
           Inl thrown \<Rightarrow> (Inl thrown, st)
         | Inr effectiveSchoolId \<Rightarrow>
          (case Classroom_checkSchoolAccess tok effectiveSchoolId of
             Some authError \<Rightarrow> (Inl authError, st)
           | None \<Rightarrow>
            (if tok_role t = ''superadmin'' \<and> \<not> truthy effectiveSchoolId
             then (Inl (Failure ''School ID is required for superadmin'' None), st)
             else
             (case validate d of
                Some result \<Rightarrow> (Inl (Invalid result), st)
              | None \<Rightarrow>
               (case findById sch_id (schools st) effectiveSchoolId of
                  None \<Rightarrow> (Inl (Failure ''School not found'' None), st)
                | Some school \<Rightarrow>
                 (if \<not> sch_isActive school
                  then (Inl (Failure ''Cannot create classroom in an inactive school'' None), st)
                  else
                  (case regExp (''^'' @ templateString (cd_name d) @ ''$'') of
                     None \<Rightarrow> (Inl (Thrown ''SyntaxError''), st)
                   | Some matches \<Rightarrow>
                  if find (\<lambda>c. cls_schoolId c = toString effectiveSchoolId \<and>
                                matches (cls_name c) \<and>
                                cls_isActive c \<and>
                                (if truthy (cd_academicYear d)
                                 then cls_academicYear c = cd_academicYear d else True))
                          (classrooms st) \<noteq> None
                  then (Inl (Failure
                          (''A classroom with this name already exists in this school'' @
                           (if truthy (cd_academicYear d) then '' for the same academic year'' else []))
                          None), st)
                  else
                  (let createdClassroom = \<lparr>
                         cls_id = newId,
                         cls_name = cd_name d,
                         cls_schoolId = toString effectiveSchoolId,
                         cls_capacity = cd_capacity d,
                         cls_grade = cd_grade d,
                         cls_section = cd_section d,
                         cls_resources = (case cd_resources d of None \<Rightarrow> [] | Some r \<Rightarrow> r),
                         cls_academicYear = cd_academicYear d,
                         cls_isActive = True,
                         cls_createdBy = tok_userId t \<rparr>
                   in (case schemaErrors createdClassroom of
                         Some errors \<Rightarrow> (Inl (Invalid errors), st)
                       | None \<Rightarrow>
                          (Inr createdClassroom,
                           st\<lparr>classrooms := classrooms st @ [createdClassroom]\<rparr>))))))))))))"

text \<open>\<open>getClassrooms\<close>: each classroom of the page comes with its count of active students
  and \<open>availableSeats = capacity - studentCount\<close>.\<close>

definition getClassrooms ::
  "(string \<Rightarrow> jsval \<Rightarrow> bool) \<Rightarrow> store \<Rightarrow> jsval \<Rightarrow> int option \<Rightarrow> int option \<Rightarrow>
     jsval \<Rightarrow> jsval \<Rightarrow> flag \<Rightarrow> jsval \<Rightarrow> token option \<Rightarrow>
     failure + ((classroom \<times> nat \<times> int) list \<times> pagination)" where
  "getClassrooms rx st schoolId page limit search grade isActive academicYear tok =
     (case Classroom_getEffectiveSchoolId tok schoolId of
        Inl thrown \<Rightarrow> Inl thrown
      | Inr effectiveSchoolId \<Rightarrow>
       (case Classroom_checkSchoolAccess tok effectiveSchoolId of
          Some authError \<Rightarrow> Inl authError
        | None \<Rightarrow>
         (case tok of
            None \<Rightarrow> Inl (Thrown ''TypeError'')
          | Some t \<Rightarrow>
            (let query = (\<lambda>c.
                   (if tok_role t = ''school_admin'' then Some (cls_schoolId c) = idString (tok_schoolId t)
                    else if truthy effectiveSchoolId then cls_schoolId c = toString effectiveSchoolId
                    else True)
                 \<and> (if isActive \<noteq> NoFlag then cls_isActive c = flagValue isActive else True)
                 \<and> (if truthy search then rx (toString search) (cls_name c) else True)
                 \<and> (if truthy grade then cls_grade c = Str (toString grade) else True)
                 \<and> (if truthy academicYear then cls_academicYear c = Str (toString academicYear)
                    else True));
                 found = paginate page limit (filter query (classrooms st))
             in Inr (map (\<lambda>c. let studentCount = countActiveInClassroom st (cls_id c)
                              in (c, studentCount, cls_capacity c - int studentCount))
                         (fst found),
                     snd found)))))"

definition deleteClassroom ::
  "store \<Rightarrow> jsval \<Rightarrow> token option \<Rightarrow> (failure + string \<times> classroom) \<times> store" where
  "deleteClassroom st classroomId tok =
     (case tok of
        None \<Rightarrow> (Inl (Failure ''Authentication required'' (Some 401)), st)
      | Some t \<Rightarrow>
       (if \<not> truthy classroomId then (Inl (Failure ''Classroom ID is required'' None), st)
        else
        (case findById cls_id (classrooms st) classroomId of
           None \<Rightarrow> (Inl (Failure ''Classroom not found'' None), st)
         | Some classroom \<Rightarrow>
          (case Classroom_checkSchoolAccess tok (ObjId (cls_schoolId classroom)) of
             Some authError \<Rightarrow> (Inl authError, st)
           | None \<Rightarrow>
            (if \<not> cls_isActive classroom
             then (Inl (Failure ''Classroom is already inactive'' None), st)
             else
             (let activeStudents = countActiveInClassroom st (toString classroomId)
              in if activeStudents > 0
                 then (Inl (ClassroomInUse
                         ''Cannot delete classroom with active students. Please transfer or remove students first.''
                         activeStudents), st)
                 else
                 (let classroom' = classroom\<lparr>cls_isActive := False\<rparr>
                  in (Inr (''Classroom deleted successfully'', classroom'),
                      st\<lparr>classrooms := saveDoc cls_id classroom' (classrooms st)\<rparr>))))))))"

section \<open>The referential invariant\<close>

text \<open>A student with a classroom references a classroom of the store whose school is the
  student's school.\<close>

definition classroomInSchool :: "store \<Rightarrow> student \<Rightarrow> bool" where
  "classroomInSchool st s =
     (case stu_classroomId s of
        None \<Rightarrow> True
      | Some c \<Rightarrow>
          (case findById cls_id (classrooms st) (ObjId c) of
             None \<Rightarrow> False
           | Some classroom \<Rightarrow> cls_schoolId classroom = stu_schoolId s))"

definition referencesOk :: "store \<Rightarrow> bool" where
  "referencesOk st = list_all (classroomInSchool st) (students st)"

section \<open>A small store for concrete runs\<close>

definition superTok :: token where
  "superTok = \<lparr>tok_userId = ''u1'', tok_role = ''superadmin'', tok_schoolId = Undefined\<rparr>"

definition adminTok :: token where
  "adminTok = \<lparr>tok_userId = ''u2'', tok_role = ''school_admin'', tok_schoolId = Str ''s1''\<rparr>"

definition mkSchool :: "string \<Rightarrow> string \<Rightarrow> school" where
  "mkSchool i n = \<lparr>sch_id = i, sch_name = Str n, sch_address = Undefined, sch_phone = Undefined,
     sch_email = Undefined, sch_principal = Undefined, sch_establishedYear = None,
     sch_isActive = True, sch_createdBy = ''u1''\<rparr>"

definition mkClassroom :: "string \<Rightarrow> string \<Rightarrow> string \<Rightarrow> int \<Rightarrow> classroom" where
  "mkClassroom i n sid cap = \<lparr>cls_id = i, cls_name = Str n, cls_schoolId = sid, cls_capacity = cap,
     cls_grade = Undefined, cls_section = Undefined, cls_resources = [],
     cls_academicYear = Undefined, cls_isActive = True, cls_createdBy = ''u1''\<rparr>"

definition mkStudent :: "string \<Rightarrow> string \<Rightarrow> string \<Rightarrow> string option \<Rightarrow> bool \<Rightarrow> student" where
  "mkStudent i n sid cid act = \<lparr>stu_id = i, stu_firstName = Str n, stu_lastName = Str ''Doe'',
     stu_email = Undefined, stu_dateOfBirth = Undefined, stu_gender = Undefined,
     stu_schoolId = sid, stu_classroomId = cid, stu_enrollmentDate = 0,
     stu_guardianName = Undefined, stu_guardianPhone = Undefined, stu_guardianEmail = Undefined,
     stu_address = Undefined, stu_isActive = act, stu_transferHistory = [],
     stu_createdBy = ''u1''\<rparr>"

text \<open>School \<open>s1\<close> has the classroom \<open>c1\<close> of capacity 1, taken by the active student
  \<open>a1\<close>, and the inactive student \<open>b1\<close>; school \<open>s2\<close> has the empty classroom \<open>c2\<close>;
  school \<open>s3\<close> has nothing.\<close>

definition demoStore :: store where
  "demoStore = \<lparr>
     schools = [mkSchool ''s1'' ''Lincoln HS'', mkSchool ''s2'' ''Hill School'', mkSchool ''s3'' ''Lake School''],
     classrooms = [mkClassroom ''c1'' ''Room 1'' ''s1'' 1, mkClassroom ''c2'' ''Room 2'' ''s2'' 30],
     students = [mkStudent ''a1'' ''Ann'' ''s1'' (Some ''c1'') True,
                 mkStudent ''b1'' ''Bob'' ''s1'' None False] \<rparr>"

definition noData :: studentData where
  "noData = \<lparr>in_firstName = Undefined, in_lastName = Undefined, in_email = Undefined,
     in_dateOfBirth = Undefined, in_gender = Undefined, in_guardianName = Undefined,
     in_guardianPhone = Undefined, in_guardianEmail = Undefined, in_address = Undefined\<rparr>"

section \<open>Facts about the store operations\<close>

lemma find_saveDoc_same:
  "find (\<lambda>x. idf x = idf d) xs = Some y \<Longrightarrow> find (\<lambda>x. idf x = idf d) (saveDoc idf d xs) = Some d"
  by (induction xs) (auto simp: saveDoc_def split: if_splits)

lemma findById_id: "findById idf xs v = Some x \<Longrightarrow> idString v = Some (idf x) \<and> x \<in> set xs"
  by (auto simp: findById_def find_Some_iff split: option.splits)

lemma findById_saveDoc:
  assumes "findById idf xs v = Some x" and "idf d = idf x"
  shows "findById idf (saveDoc idf d xs) v = Some d"
proof -
  from assms(1) obtain i where i: "idString v = Some i" "find (\<lambda>y. idf y = i) xs = Some x"
    by (auto simp: findById_def split: option.splits)
  then have "i = idf x" by (auto simp: find_Some_iff)
  with i assms(2) show ?thesis
    using find_saveDoc_same[of idf d xs x] by (simp add: findById_def)
qed

lemma findById_ObjId_toString: "truthy v \<Longrightarrow> findById idf xs (ObjId (toString v)) = findById idf xs v"
  by (cases v) (auto simp: findById_def toString_def)

lemma castRef_truthy: "truthy v \<Longrightarrow> castRef v = Some (toString v)"
  by (cases v) (auto simp: castRef_def toString_def)

lemma castRef_falsy: "\<not> truthy v \<Longrightarrow> castRef v = None"
  by (simp add: castRef_def)

lemma paginate_subset: "set (fst (paginate page limit xs)) \<subseteq> set xs"
proof -
  have "set (take n (drop k (rev xs))) \<subseteq> set xs" for n k
    using set_take_subset[of n "drop k (rev xs)"] set_drop_subset[of k "rev xs"] by auto
  then show ?thesis by (simp add: paginate_def Let_def)
qed

lemma paginate_all:
  "(\<And>x. x \<in> set xs \<Longrightarrow> P x) \<Longrightarrow> list_all P (fst (paginate page limit xs))"
  using paginate_subset[of page limit xs] by (auto simp: list_all_iff)

text \<open>A call that fails writes nothing.\<close>

lemma createStudent_failed:
  "createStudent validate newId now st schoolId classroomId d tok = (Inl e, st') \<Longrightarrow> st' = st"
  by (auto simp: createStudent_def Let_def split: option.splits if_splits)

lemma updateStudent_failed:
  "updateStudent st studentId d classroomId isActive tok = (Inl e, st') \<Longrightarrow> st' = st"
  by (auto simp: updateStudent_def Let_def split: option.splits if_splits)

lemma transferStudent_failed:
  "transferStudent now st studentId toSchoolId toClassroomId r tok = (Inl e, st') \<Longrightarrow> st' = st"
  by (auto simp: transferStudent_def Let_def split: option.splits if_splits sum.splits)

text \<open>What the classroom checks have established when they let a request through.\<close>

lemma enrolClassroomCheck_None:
  "enrolClassroomCheck st classroomId eff = None \<Longrightarrow> truthy classroomId \<Longrightarrow>
   \<exists>classroom. findById cls_id (classrooms st) classroomId = Some classroom \<and> cls_isActive classroom
      \<and> cls_schoolId classroom = toString eff
      \<and> int (countActiveInClassroom st (toString classroomId)) < cls_capacity classroom"
  by (auto simp: enrolClassroomCheck_def split: option.splits if_splits)



lemma moveClassroomCheck_None:
  "moveClassroomCheck st classroomId student = None \<Longrightarrow> truthy classroomId \<Longrightarrow>
   classroomId = (case stu_classroomId student of None \<Rightarrow> Undefined | Some c \<Rightarrow> Str c) \<or>
   (\<exists>classroom. findById cls_id (classrooms st) classroomId = Some classroom
      \<and> cls_schoolId classroom = stu_schoolId student)"
  by (auto simp: moveClassroomCheck_def split: option.splits if_splits)

lemma targetClassroomCheck_Inr:
  "targetClassroomCheck st toClassroomId target = Inr r \<Longrightarrow> truthy toClassroomId \<Longrightarrow>
   \<exists>classroom. findById cls_id (classrooms st) toClassroomId = Some classroom
      \<and> cls_schoolId classroom = toString target \<and> r = Some classroom"
  by (auto simp: targetClassroomCheck_def split: option.splits if_splits)

text \<open>What a successful update or transfer has written.\<close>

lemma updateStudent_written:
  assumes "updateStudent st studentId d classroomId isActive tok = (Inr s, st')"
  shows "\<exists>student. findById stu_id (students st) studentId = Some student
     \<and> moveClassroomCheck st classroomId student = None
     \<and> stu_id s = stu_id student \<and> stu_schoolId s = stu_schoolId student
     \<and> stu_classroomId s = (if classroomId \<noteq> Undefined then castRef classroomId else stu_classroomId student)
     \<and> stu_isActive s = (case isActive of None \<Rightarrow> stu_isActive student | Some b \<Rightarrow> b)
     \<and> st' = st\<lparr>students := saveDoc stu_id s (students st)\<rparr>"
  using assms
  by (auto simp: updateStudent_def Let_def split: option.splits if_splits)

lemma transferStudent_written:
  assumes "transferStudent now st studentId toSchoolId toClassroomId r tok = (Inr res, st')"
  shows "\<exists>student s tc. findById stu_id (students st) studentId = Some student
     \<and> targetClassroomCheck st toClassroomId (orElse toSchoolId (Str (stu_schoolId student))) = Inr tc
     \<and> s = student\<lparr>
          stu_schoolId := (if truthy toSchoolId then toString toSchoolId else stu_schoolId student),
          stu_classroomId := castRef toClassroomId,
          stu_transferHistory := stu_transferHistory student @
            [\<lparr>fromSchool = stu_schoolId student,
              toSchool = toString (orElse toSchoolId (ObjId (stu_schoolId student))),
              fromClassroom = stu_classroomId student,
              toClassroom = castRef toClassroomId,
              date = now,
              reason = toString (orElse r (Str []))\<rparr>]\<rparr>
     \<and> st' = st\<lparr>students := saveDoc stu_id s (students st)\<rparr>
     \<and> tr_student res = findById stu_id (students st') studentId"
  using assms
  by (auto simp: transferStudent_def Let_def split: option.splits if_splits sum.splits)

text \<open>The definitions a concrete run unfolds.\<close>

lemmas ex_defs = demoStore_def mkSchool_def mkClassroom_def mkStudent_def superTok_def adminTok_def
  noData_def findById_def saveDoc_def countActiveInClassroom_def countActiveStudentsOfSchool_def
  countActiveClassroomsOfSchool_def Student_checkSchoolAccess_def Classroom_checkSchoolAccess_def
  Student_getEffectiveSchoolId_def Classroom_getEffectiveSchoolId_def
  checkSuperadminAccess_def tokenSchoolId_def toString_def preSave_def castRef_def Let_def

section \<open>The classroom of a student belongs to the student's school\<close>

lemma classroomInSchool_students [simp]:
  "classroomInSchool (st\<lparr>students := xs\<rparr>) = classroomInSchool st"
  by (rule ext) (simp add: classroomInSchool_def split: option.splits)

lemma referencesOk_append:
  "referencesOk st \<Longrightarrow> classroomInSchool st s \<Longrightarrow> referencesOk (st\<lparr>students := students st @ [s]\<rparr>)"
  by (simp add: referencesOk_def)

lemma referencesOk_saveDoc:
  "referencesOk st \<Longrightarrow> classroomInSchool st s \<Longrightarrow>
   referencesOk (st\<lparr>students := saveDoc stu_id s (students st)\<rparr>)"
  by (auto simp: referencesOk_def saveDoc_def list_all_iff)

lemma referencesOk_member:
  "referencesOk st \<Longrightarrow> findById stu_id (students st) v = Some s \<Longrightarrow> classroomInSchool st s"
  by (auto simp: referencesOk_def list_all_iff dest: findById_id)

lemma classroomInSchool_cast:
  assumes "findById cls_id (classrooms st) v = Some classroom"
    and "cls_schoolId classroom = stu_schoolId s" and "stu_classroomId s = castRef v"
  shows "classroomInSchool st s"
proof (cases "truthy v")
  case True
  with assms show ?thesis
    by (simp add: classroomInSchool_def castRef_truthy findById_ObjId_toString)
next
  case False
  with assms show ?thesis by (simp add: classroomInSchool_def castRef_falsy)
qed

lemma classroomInSchool_eq:
  "stu_classroomId s = stu_classroomId s' \<Longrightarrow> stu_schoolId s = stu_schoolId s' \<Longrightarrow>
   classroomInSchool st s = classroomInSchool st s'"
  by (simp add: classroomInSchool_def split: option.splits)

lemma classroomInSchool_none: "stu_classroomId s = None \<Longrightarrow> classroomInSchool st s"
  by (simp add: classroomInSchool_def)

lemma createStudent_written:
  assumes "createStudent validate newId now st schoolId classroomId d tok = (Inr s, st')"
  shows "st' = st\<lparr>students := students st @ [s]\<rparr> \<and> classroomInSchool st s"
proof -
  from assms obtain eff where chk: "enrolClassroomCheck st classroomId eff = None"
    and s: "stu_classroomId s = castRef classroomId" "stu_schoolId s = toString eff"
    and st': "st' = st\<lparr>students := students st @ [s]\<rparr>"
    by (auto simp: createStudent_def Let_def split: option.splits if_splits)
  show ?thesis
  proof (cases "truthy classroomId")
    case True
    with chk obtain classroom where "findById cls_id (classrooms st) classroomId = Some classroom"
      "cls_schoolId classroom = toString eff"
      using enrolClassroomCheck_None by blast
    with s st' show ?thesis using classroomInSchool_cast by metis
  next
    case False
    with s st' show ?thesis by (simp add: classroomInSchool_none castRef_falsy)
  qed
qed

lemma updateStudent_ref:
  assumes "updateStudent st studentId d classroomId isActive tok = (Inr s, st')" and "referencesOk st"
  shows "classroomInSchool st s"
proof -
  from updateStudent_written[OF assms(1)] obtain student where
    f: "findById stu_id (students st) studentId = Some student"
    and m: "moveClassroomCheck st classroomId student = None"
    and sch: "stu_schoolId s = stu_schoolId student"
    and cl: "stu_classroomId s = (if classroomId \<noteq> Undefined then castRef classroomId else stu_classroomId student)"
    by blast
  have old: "classroomInSchool st student" using referencesOk_member[OF assms(2) f] .
  show ?thesis
  proof (cases "truthy classroomId")
    case False
    then show ?thesis using cl sch old classroomInSchool_eq[of s student st]
      by (auto simp: castRef_falsy classroomInSchool_none split: if_splits)
  next
    case True
    then have cl': "stu_classroomId s = castRef classroomId" using cl by auto
    from moveClassroomCheck_None[OF m True] show ?thesis
    proof
      assume same: "classroomId = (case stu_classroomId student of None \<Rightarrow> Undefined | Some c \<Rightarrow> Str c)"
      with True have "stu_classroomId s = stu_classroomId student"
        using cl' by (auto simp: castRef_def split: option.splits)
      with old sch show ?thesis using classroomInSchool_eq[of s student st] by simp
    next
      assume "\<exists>classroom. findById cls_id (classrooms st) classroomId = Some classroom
        \<and> cls_schoolId classroom = stu_schoolId student"
      then show ?thesis using classroomInSchool_cast cl' sch by metis
    qed
  qed
qed

lemma transferStudent_ref:
  assumes "transferStudent now st studentId toSchoolId toClassroomId r tok = (Inr res, st')"
  shows "\<exists>s. tr_student res = Some s \<and> classroomInSchool st s
      \<and> st' = st\<lparr>students := saveDoc stu_id s (students st)\<rparr>"
proof -
  from transferStudent_written[OF assms] obtain student s tc where
    f: "findById stu_id (students st) studentId = Some student"
    and tc: "targetClassroomCheck st toClassroomId (orElse toSchoolId (Str (stu_schoolId student))) = Inr tc"
    and seq: "s = student\<lparr>
          stu_schoolId := (if truthy toSchoolId then toString toSchoolId else stu_schoolId student),
          stu_classroomId := castRef toClassroomId,
          stu_transferHistory := stu_transferHistory student @
            [\<lparr>fromSchool = stu_schoolId student,
              toSchool = toString (orElse toSchoolId (ObjId (stu_schoolId student))),
              fromClassroom = stu_classroomId student,
              toClassroom = castRef toClassroomId,
              date = now,
              reason = toString (orElse r (Str []))\<rparr>]\<rparr>"
    and st': "st' = st\<lparr>students := saveDoc stu_id s (students st)\<rparr>"
    and res: "tr_student res = findById stu_id (students st') studentId"
    by blast
  have sch: "stu_schoolId s = (if truthy toSchoolId then toString toSchoolId else stu_schoolId student)"
    and cl: "stu_classroomId s = castRef toClassroomId"
    and i: "stu_id s = stu_id student"
    by (simp_all add: seq)
  have found: "tr_student res = Some s"
    using res st' findById_saveDoc[OF f i] by simp
  have "classroomInSchool st s"
  proof (cases "truthy toClassroomId")
    case False
    then show ?thesis using cl by (simp add: classroomInSchool_none castRef_falsy)
  next
    case True
    from targetClassroomCheck_Inr[OF tc True] obtain classroom where
      c: "findById cls_id (classrooms st) toClassroomId = Some classroom"
         "cls_schoolId classroom = toString (orElse toSchoolId (Str (stu_schoolId student)))"
      by blast
    have "toString (orElse toSchoolId (Str (stu_schoolId student))) = stu_schoolId s"
      using sch by (simp add: orElse_def toString_def)
    with c cl show ?thesis using classroomInSchool_cast by metis
  qed
  with found st' show ?thesis by blast
qed

text \<open>
  Claim C1. In a store where every student with a classroom references a classroom of the
  student's own school, \<open>createStudent\<close>, \<open>updateStudent\<close> and \<open>transferStudent\<close> leave a
  store with the same property, whatever they return; and when one of them succeeds, the
  student it created, updated or transferred has no classroom or a classroom whose
  \<open>schoolId\<close> is the student's \<open>schoolId\<close>.
\<close>

theorem student_classroom_belongs_to_student_school:
  assumes "referencesOk st"
  shows
   "(referencesOk (snd (createStudent validate newId now st schoolId classroomId d tok)) \<and>
     (\<forall>s. fst (createStudent validate newId now st schoolId classroomId d tok) = Inr s \<longrightarrow>
          classroomInSchool (snd (createStudent validate newId now st schoolId classroomId d tok)) s)) \<and>
    (referencesOk (snd (updateStudent st studentIdU dU classroomIdU isActiveU tokU)) \<and>
     (\<forall>s. fst (updateStudent st studentIdU dU classroomIdU isActiveU tokU) = Inr s \<longrightarrow>
          classroomInSchool (snd (updateStudent st studentIdU dU classroomIdU isActiveU tokU)) s)) \<and>
    (referencesOk (snd (transferStudent nowT st studentIdT toSchoolId toClassroomId r tokT)) \<and>
     (\<forall>res. fst (transferStudent nowT st studentIdT toSchoolId toClassroomId r tokT) = Inr res \<longrightarrow>
          (\<exists>s. tr_student res = Some s \<and>
            classroomInSchool (snd (transferStudent nowT st studentIdT toSchoolId toClassroomId r tokT)) s)))"
proof -
  have a: "referencesOk st' \<and> (\<forall>s. x = Inr s \<longrightarrow> classroomInSchool st' s)"
    if "createStudent validate newId now st schoolId classroomId d tok = (x, st')" for x st'
  proof (cases x)
    case (Inl e)
    with that assms show ?thesis using createStudent_failed by fastforce
  next
    case (Inr s)
    with that assms show ?thesis
      using createStudent_written[of validate newId now st schoolId classroomId d tok s st']
      by (simp add: referencesOk_append)
  qed
  have b: "referencesOk st' \<and> (\<forall>s. x = Inr s \<longrightarrow> classroomInSchool st' s)"
    if "updateStudent st studentIdU dU classroomIdU isActiveU tokU = (x, st')" for x st'
  proof (cases x)
    case (Inl e)
    with that assms show ?thesis using updateStudent_failed by fastforce
  next
    case (Inr s)
    with that have u: "updateStudent st studentIdU dU classroomIdU isActiveU tokU = (Inr s, st')" by simp
    from updateStudent_written[OF u] have "st' = st\<lparr>students := saveDoc stu_id s (students st)\<rparr>"
      by blast
    with Inr assms show ?thesis using updateStudent_ref[OF u assms]
      by (simp add: referencesOk_saveDoc)
  qed
  have c: "referencesOk st' \<and> (\<forall>res. x = Inr res \<longrightarrow> (\<exists>s. tr_student res = Some s \<and> classroomInSchool st' s))"
    if "transferStudent nowT st studentIdT toSchoolId toClassroomId r tokT = (x, st')" for x st'
  proof (cases x)
    case (Inl e)
    with that assms show ?thesis using transferStudent_failed by fastforce
  next
    case (Inr res)
    with that have u: "transferStudent nowT st studentIdT toSchoolId toClassroomId r tokT = (Inr res, st')" by simp
    from transferStudent_ref[OF u] Inr assms show ?thesis
      by (auto simp: referencesOk_saveDoc)
  qed
  show ?thesis
    using a[OF surjective_pairing] b[OF surjective_pairing] c[OF surjective_pairing] by blast
qed

theorem student_classroom_belongs_to_student_school_witness:
  "referencesOk demoStore \<and>
   \<not> isl (fst (createStudent (\<lambda>d. None) ''n1'' 7 demoStore (Str ''s2'') (Str ''c2'') noData (Some superTok))) \<and>
   referencesOk (snd (createStudent (\<lambda>d. None) ''n1'' 7 demoStore (Str ''s2'') (Str ''c2'') noData (Some superTok))) \<and>
   \<not> isl (fst (updateStudent demoStore (Str ''a1'') noData (Str ''c1'') None (Some adminTok))) \<and>
   referencesOk (snd (updateStudent demoStore (Str ''a1'') noData (Str ''c1'') None (Some adminTok))) \<and>
   \<not> isl (fst (transferStudent 5 demoStore (Str ''a1'') (Str ''s2'') (Str ''c2'') Undefined (Some superTok))) \<and>
   referencesOk (snd (transferStudent 5 demoStore (Str ''a1'') (Str ''s2'') (Str ''c2'') Undefined (Some superTok)))"
proof -
  have h: "referencesOk demoStore"
    by (simp add: referencesOk_def classroomInSchool_def ex_defs)
  have 1: "\<not> isl (fst (createStudent (\<lambda>d. None) ''n1'' 7 demoStore (Str ''s2'') (Str ''c2'') noData (Some superTok)))"
    by (simp add: createStudent_def enrolClassroomCheck_def ex_defs)
  have 2: "\<not> isl (fst (updateStudent demoStore (Str ''a1'') noData (Str ''c1'') None (Some adminTok)))"
    by (simp add: updateStudent_def moveClassroomCheck_def setIfDefined_def ex_defs)
  have 3: "\<not> isl (fst (transferStudent 5 demoStore (Str ''a1'') (Str ''s2'') (Str ''c2'') Undefined (Some superTok)))"
    by (simp add: transferStudent_def targetSchoolCheck_def targetClassroomCheck_def orElse_def schoolName_def ex_defs)
  show ?thesis
    using h 1 2 3
      student_classroom_belongs_to_student_school[OF h,
        where validate = "\<lambda>d. None" and newId = "''n1''" and now = 7 and schoolId = "Str ''s2''"
          and classroomId = "Str ''c2''" and d = noData and tok = "Some superTok"
          and studentIdU = "Str ''a1''" and dU = noData and classroomIdU = "Str ''c1''"
          and isActiveU = None and tokU = "Some adminTok"
          and nowT = 5 and studentIdT = "Str ''a1''" and toSchoolId = "Str ''s2''"
          and toClassroomId = "Str ''c2''" and r = Undefined and tokT = "Some superTok"]
    by blast
qed

section \<open>Deactivating a school\<close>

text \<open>
  Claim C2. In the demonstration store the school \<open>s1\<close> owns one active classroom and one
  active student. \<open>deleteSchool\<close> refuses to deactivate it, returns both counts and leaves
  the store unchanged; \<open>updateSchool\<close> with \<open>isActive = false\<close> deactivates the same school
  without counting anything.
\<close>

theorem updateSchool_deactivates_school_in_use:
  "deleteSchool demoStore (Str ''s1'') (Some superTok)
     = (Inl (SchoolInUse
         ''Cannot delete school with active classrooms or students. Please deactivate or transfer them first.''
         1 1), demoStore) \<and>
   updateSchool (\<lambda>p. Some (\<lambda>v. False)) demoStore (Str ''s1'') Undefined Undefined Undefined Undefined Undefined
       None (Some False) (Some superTok)
     = (Inr ((mkSchool ''s1'' ''Lincoln HS'')\<lparr>sch_isActive := False\<rparr>),
        demoStore\<lparr>schools := [(mkSchool ''s1'' ''Lincoln HS'')\<lparr>sch_isActive := False\<rparr>,
                               mkSchool ''s2'' ''Hill School'', mkSchool ''s3'' ''Lake School'']\<rparr>)"
  by (simp add: deleteSchool_def updateSchool_def setIfDefined_def ex_defs)

section \<open>The effective school of a school admin\<close>

text \<open>
  Claim C3, as amended. For a school admin whose token carries the school \<open>S\<close>,
  \<open>_getEffectiveSchoolId\<close> (of either manager) returns \<open>S\<close> whatever school the request
  names, and \<open>_checkSchoolAccess\<close> accepts \<open>S\<close>. The 403 for a requested school that is
  present and differs from \<open>S\<close> comes from the check that \<open>createStudent\<close> and
  \<open>createClassroom\<close> make before resolving. \<open>getStudents\<close> and \<open>getClassrooms\<close> make no such
  check: with any requested school they answer, with documents of school \<open>S\<close> only.
\<close>

theorem school_admin_effective_school:
  assumes "tok_role t = ''school_admin''" and "tok_schoolId t = Str S" and "S \<noteq> []"
  shows
   "Student_getEffectiveSchoolId (Some t) requested = Str S \<and>
    Classroom_getEffectiveSchoolId (Some t) requested = Inr (Str S) \<and>
    Student_checkSchoolAccess (Some t) (Str S) = None \<and>
    Classroom_checkSchoolAccess (Some t) (Str S) = None \<and>
    (truthy requested \<and> toString requested \<noteq> S \<longrightarrow>
       createStudent validate newId now st requested classroomId d (Some t)
         = (Inl (Failure ''Access denied. You can only access students in your assigned school.'' (Some 403)), st) \<and>
       createClassroom validate' schemaErrors regExp newId st requested cd (Some t)
         = (Inl (Failure ''Access denied. You can only access your assigned school.'' (Some 403)), st)) \<and>
    (\<exists>found. getStudents rx st requested classroomId page limit search gender isActive (Some t) = Inr found
        \<and> list_all (\<lambda>s. stu_schoolId s = S) (fst found)) \<and>
    (\<exists>found. getClassrooms rx st requested page limit search grade isActive academicYear (Some t) = Inr found
        \<and> list_all (\<lambda>c. cls_schoolId (fst c) = S) (fst found))"
proof -
  have ne: "''school_admin'' \<noteq> ''superadmin''" by simp
  have 1: "Student_getEffectiveSchoolId (Some t) requested = Str S"
    using assms by (simp add: Student_getEffectiveSchoolId_def)
  have 2: "Classroom_getEffectiveSchoolId (Some t) requested = Inr (Str S)"
    using assms by (simp add: Classroom_getEffectiveSchoolId_def)
  have 3: "Student_checkSchoolAccess (Some t) (Str S) = None"
    using assms by (simp add: Student_checkSchoolAccess_def tokenSchoolId_def toString_def)
  have 4: "Classroom_checkSchoolAccess (Some t) (Str S) = None"
    using assms by (simp add: Classroom_checkSchoolAccess_def tokenSchoolId_def toString_def)
  have 5: "createStudent validate newId now st requested classroomId d (Some t)
         = (Inl (Failure ''Access denied. You can only access students in your assigned school.'' (Some 403)), st)"
    if "truthy requested" "toString requested \<noteq> S"
    using assms that by (simp add: createStudent_def tokenSchoolId_def)
  have 6: "createClassroom validate' schemaErrors regExp newId st requested cd (Some t)
         = (Inl (Failure ''Access denied. You can only access your assigned school.'' (Some 403)), st)"
    if "truthy requested" "toString requested \<noteq> S"
    using assms that by (simp add: createClassroom_def tokenSchoolId_def)
  have 7: "\<exists>found. getStudents rx st requested classroomId page limit search gender isActive (Some t) = Inr found
        \<and> list_all (\<lambda>s. stu_schoolId s = S) (fst found)"
    using assms 1 3
    by (auto simp: getStudents_def Let_def intro!: paginate_all)
  have 8: "\<exists>found. getClassrooms rx st requested page limit search grade isActive academicYear (Some t) = Inr found
        \<and> list_all (\<lambda>c. cls_schoolId (fst c) = S) (fst found)"
    using assms 2 4
    by (auto simp: getClassrooms_def Let_def list.pred_map comp_def intro!: paginate_all)
  from 1 2 3 4 5 6 7 8 show ?thesis by blast
qed

theorem school_admin_effective_school_witness:
  "Student_getEffectiveSchoolId (Some adminTok) Undefined = Str ''s1'' \<and>
   Student_getEffectiveSchoolId (Some adminTok) (Str ''s1'') = Str ''s1'' \<and>
   Student_getEffectiveSchoolId (Some adminTok) (Str ''s2'') = Str ''s1'' \<and>
   createStudent (\<lambda>d. None) ''n1'' 7 demoStore (Str ''s2'') Undefined noData (Some adminTok)
     = (Inl (Failure ''Access denied. You can only access students in your assigned school.'' (Some 403)),
        demoStore) \<and>
   \<not> isl (getStudents (\<lambda>p v. False) demoStore (Str ''s2'') Undefined None None Undefined Undefined NoFlag
           (Some adminTok))"
proof -
  have a: "tok_role adminTok = ''school_admin''" "tok_schoolId adminTok = Str ''s1''" "''s1'' \<noteq> []"
    by (simp_all add: adminTok_def)
  have 1: "Student_getEffectiveSchoolId (Some adminTok) Undefined = Str ''s1''"
    by (rule school_admin_effective_school[OF a, THEN conjunct1])
  have 2: "Student_getEffectiveSchoolId (Some adminTok) (Str ''s1'') = Str ''s1''"
    by (rule school_admin_effective_school[OF a, THEN conjunct1])
  have t: "truthy (Str ''s2'') \<and> toString (Str ''s2'') \<noteq> ''s1''" by (simp add: toString_def)
  show ?thesis
    using 1 2 t
      school_admin_effective_school[OF a, where requested = "Str ''s2''" and validate = "\<lambda>d. None"
        and newId = "''n1''" and now = 7 and st = demoStore and classroomId = Undefined and d = noData
        and rx = "\<lambda>p v. False" and page = None and limit = None and search = Undefined
        and gender = Undefined and isActive = NoFlag and validate' = "\<lambda>d. None"
        and schemaErrors = "\<lambda>d. None" and regExp = "\<lambda>p. Some (\<lambda>v. False)" and grade = Undefined and academicYear = Undefined
        and cd = "\<lparr>cd_name = Str ''Room 9'', cd_capacity = 5, cd_grade = Undefined,
             cd_section = Undefined, cd_resources = None, cd_academicYear = Undefined\<rparr>"]
    by auto
qed

text \<open>The school admin of \<open>s1\<close> lists students naming school \<open>s2\<close>: the request is
  answered, with the students of \<open>s1\<close>, and is not refused.\<close>

theorem effective_school_counterexample:
  "Student_getEffectiveSchoolId (Some adminTok) (Str ''s2'') = Str ''s1'' \<and>
   getStudents (\<lambda>p v. False) demoStore (Str ''s2'') Undefined None None Undefined Undefined NoFlag (Some adminTok)
     = Inr ([mkStudent ''b1'' ''Bob'' ''s1'' None False, mkStudent ''a1'' ''Ann'' ''s1'' (Some ''c1'') True],
            \<lparr>pg_page = 1, pg_limit = 10, pg_total = 2, pg_pages = 1\<rparr>)"
  by (simp add: getStudents_def paginate_def pageNumOf_def limitNumOf_def ex_defs)

section \<open>Calls without a token\<close>

text \<open>
  Claim C4. \<open>getClassrooms\<close> called without a token does not return the 401 error: reading
  \<open>token.role\<close> in the Classroom manager's \<open>_getEffectiveSchoolId\<close> throws a TypeError
  before \<open>_checkSchoolAccess\<close> runs. \<open>getStudents\<close>, whose \<open>_getEffectiveSchoolId\<close> tests the
  token first, returns ``Authentication required'' with code 401.
\<close>

theorem getClassrooms_without_token_throws:
  "getClassrooms rx st schoolId page limit search grade isActive academicYear None = Inl (Thrown ''TypeError'') \<and>
   getStudents rx st schoolId classroomId page limit search gender isActive None
     = Inl (Failure ''Authentication required'' (Some 401))"
  by (simp add: getClassrooms_def getStudents_def Classroom_getEffectiveSchoolId_def
      Student_getEffectiveSchoolId_def Student_checkSchoolAccess_def)

section \<open>Transfers\<close>

text \<open>
  Claim C5, as amended. A school admin asks to transfer an existing student to a school
  (\<open>toSchoolId\<close> present) other than the student's current one. If the student is active the
  call fails with a 403 error and changes nothing; if the student is inactive the call fails
  with ``Cannot transfer an inactive student'', which carries no code, and changes nothing.
\<close>

theorem cross_school_transfer_by_school_admin:
  assumes "tok_role t = ''school_admin''"
    and "truthy studentId"
    and "findById stu_id (students st) studentId = Some student"
    and "truthy toSchoolId"
    and "toString toSchoolId \<noteq> stu_schoolId student"
  shows "(stu_isActive student \<longrightarrow>
            (\<exists>msg. transferStudent now st studentId toSchoolId toClassroomId r (Some t)
                     = (Inl (Failure msg (Some 403)), st))) \<and>
         (\<not> stu_isActive student \<longrightarrow>
            transferStudent now st studentId toSchoolId toClassroomId r (Some t)
              = (Inl (Failure ''Cannot transfer an inactive student'' None), st))"
proof -
  have ne: "toSchoolId \<noteq> Str (stu_schoolId student)"
    using assms(5) by (auto simp: toString_def)
  show ?thesis
    using assms(1-4) ne
    by (auto simp: transferStudent_def Let_def Student_checkSchoolAccess_def split: option.splits)
qed

theorem cross_school_transfer_by_school_admin_witness:
  "(\<exists>msg. transferStudent 0 demoStore (Str ''a1'') (Str ''s2'') Undefined Undefined (Some adminTok)
            = (Inl (Failure msg (Some 403)), demoStore)) \<and>
   transferStudent 0 demoStore (Str ''b1'') (Str ''s2'') Undefined Undefined (Some adminTok)
            = (Inl (Failure ''Cannot transfer an inactive student'' None), demoStore)"
proof -
  have r: "tok_role adminTok = ''school_admin''" by (simp add: adminTok_def)
  have a: "findById stu_id (students demoStore) (Str ''a1'') = Some (mkStudent ''a1'' ''Ann'' ''s1'' (Some ''c1'') True)"
    by (simp add: ex_defs)
  have b: "findById stu_id (students demoStore) (Str ''b1'') = Some (mkStudent ''b1'' ''Bob'' ''s1'' None False)"
    by (simp add: ex_defs)
  have ta: "toString (Str ''s2'') \<noteq> stu_schoolId (mkStudent ''a1'' ''Ann'' ''s1'' (Some ''c1'') True)"
    by (simp add: toString_def mkStudent_def)
  have tb: "toString (Str ''s2'') \<noteq> stu_schoolId (mkStudent ''b1'' ''Bob'' ''s1'' None False)"
    by (simp add: toString_def mkStudent_def)
  show ?thesis
    using cross_school_transfer_by_school_admin[OF r _ a _ ta, of 0 Undefined Undefined]
          cross_school_transfer_by_school_admin[OF r _ b _ tb, of 0 Undefined Undefined]
    by (simp add: mkStudent_def)
qed

text \<open>The school admin of \<open>s1\<close> asks to move the inactive student \<open>b1\<close> of \<open>s1\<close> to
  school \<open>s2\<close>: the answer is the inactive-student error, not a 403.\<close>

theorem inactive_student_transfer_counterexample:
  "transferStudent 0 demoStore (Str ''b1'') (Str ''s2'') Undefined Undefined (Some adminTok)
     = (Inl (Failure ''Cannot transfer an inactive student'' None), demoStore)"
  by (simp add: transferStudent_def ex_defs)

text \<open>
  Claim C6. When \<open>transferStudent\<close> succeeds, the stored student is the one returned; its
  \<open>schoolId\<close> is \<open>toSchoolId\<close> if that was given and the old one otherwise; its \<open>classroomId\<close>
  is \<open>toClassroomId\<close> if that was given and null otherwise; and its transfer history is the
  old history followed by exactly one record, whose \<open>fromSchool\<close> and \<open>fromClassroom\<close> are
  the school and classroom the student had before the call (and whose \<open>toSchool\<close> and
  \<open>toClassroom\<close> are the new ones).
\<close>

theorem transferStudent_effect:
  assumes "transferStudent now st studentId toSchoolId toClassroomId r tok = (Inr res, st')"
  shows "\<exists>student student' entry.
           findById stu_id (students st) studentId = Some student
         \<and> findById stu_id (students st') studentId = Some student'
         \<and> tr_student res = Some student'
         \<and> stu_schoolId student' = (if truthy toSchoolId then toString toSchoolId else stu_schoolId student)
         \<and> stu_classroomId student' = (if truthy toClassroomId then Some (toString toClassroomId) else None)
         \<and> stu_transferHistory student' = stu_transferHistory student @ [entry]
         \<and> fromSchool entry = stu_schoolId student
         \<and> fromClassroom entry = stu_classroomId student
         \<and> toSchool entry = stu_schoolId student'
         \<and> toClassroom entry = stu_classroomId student'"
proof -
  from transferStudent_written[OF assms] obtain student s and tc :: "classroom option" where
    f: "findById stu_id (students st) studentId = Some student"
    and seq: "s = student\<lparr>
          stu_schoolId := (if truthy toSchoolId then toString toSchoolId else stu_schoolId student),
          stu_classroomId := castRef toClassroomId,
          stu_transferHistory := stu_transferHistory student @
            [\<lparr>fromSchool = stu_schoolId student,
              toSchool = toString (orElse toSchoolId (ObjId (stu_schoolId student))),
              fromClassroom = stu_classroomId student,
              toClassroom = castRef toClassroomId,
              date = now,
              reason = toString (orElse r (Str []))\<rparr>]\<rparr>"
    and st': "st' = st\<lparr>students := saveDoc stu_id s (students st)\<rparr>"
    and res: "tr_student res = findById stu_id (students st') studentId"
    by blast
  have i: "stu_id s = stu_id student" by (simp add: seq)
  have found: "findById stu_id (students st') studentId = Some s"
    using st' findById_saveDoc[OF f i] by simp
  have cl: "castRef toClassroomId = (if truthy toClassroomId then Some (toString toClassroomId) else None)"
    by (simp add: castRef_truthy castRef_falsy)
  have sc: "toString (orElse toSchoolId (ObjId (stu_schoolId student))) =
      (if truthy toSchoolId then toString toSchoolId else stu_schoolId student)"
    by (simp add: orElse_def toString_def)
  show ?thesis
    apply (rule exI[of _ student])
    apply (rule exI[of _ s])
    apply (rule exI[of _ "last (stu_transferHistory s)"])
    using f found res cl sc by (simp add: seq)
qed

theorem transferStudent_effect_witness:
  "\<not> isl (fst (transferStudent 5 demoStore (Str ''a1'') (Str ''s2'') Undefined (Str ''moving'') (Some superTok))) \<and>
   (\<exists>student student' entry.
      findById stu_id (students demoStore) (Str ''a1'') = Some student \<and>
      findById stu_id
        (students (snd (transferStudent 5 demoStore (Str ''a1'') (Str ''s2'') Undefined (Str ''moving'') (Some superTok))))
        (Str ''a1'') = Some student' \<and>
      stu_schoolId student' = ''s2'' \<and> stu_classroomId student' = None \<and>
      stu_transferHistory student' = stu_transferHistory student @ [entry] \<and>
      fromSchool entry = ''s1'' \<and> fromClassroom entry = Some ''c1'' \<and> toSchool entry = ''s2'')"
proof -
  have "\<exists>res st'. transferStudent 5 demoStore (Str ''a1'') (Str ''s2'') Undefined (Str ''moving'') (Some superTok) = (Inr res, st')"
    by (simp add: transferStudent_def targetSchoolCheck_def targetClassroomCheck_def orElse_def schoolName_def ex_defs)
  then obtain res st' where t:
    "transferStudent 5 demoStore (Str ''a1'') (Str ''s2'') Undefined (Str ''moving'') (Some superTok) = (Inr res, st')"
    by blast
  have f: "findById stu_id (students demoStore) (Str ''a1'') = Some (mkStudent ''a1'' ''Ann'' ''s1'' (Some ''c1'') True)"
    by (simp add: ex_defs)
  from transferStudent_effect[OF t] f show ?thesis
    by (fastforce simp: t toString_def mkStudent_def)
qed

text \<open>
  Claim C9, as amended. \<open>transferStudent\<close> requires a target before it looks for the student:
  an authenticated call with a student id and neither \<open>toSchoolId\<close> nor \<open>toClassroomId\<close>
  returns ``At least one of toSchoolId or toClassroomId is required'', whether the student
  exists or not; ``Student not found'' is the answer for a student that does not exist only
  when a target is given.
\<close>

theorem transferStudent_checks_target_before_student:
  "(truthy studentId \<and> \<not> truthy toSchoolId \<and> \<not> truthy toClassroomId \<longrightarrow>
      transferStudent now st studentId toSchoolId toClassroomId r (Some t)
        = (Inl (Failure ''At least one of toSchoolId or toClassroomId is required'' None), st)) \<and>
   (truthy studentId \<and> (truthy toSchoolId \<or> truthy toClassroomId) \<and>
    findById stu_id (students st) studentId = None \<longrightarrow>
      transferStudent now st studentId toSchoolId toClassroomId r (Some t)
        = (Inl (Failure ''Student not found'' None), st))"
  by (auto simp: transferStudent_def)

theorem transferStudent_checks_target_before_student_witness:
  "transferStudent 0 demoStore (Str ''zz'') Undefined Undefined Undefined (Some superTok)
     = (Inl (Failure ''At least one of toSchoolId or toClassroomId is required'' None), demoStore) \<and>
   transferStudent 0 demoStore (Str ''zz'') (Str ''s2'') Undefined Undefined (Some superTok)
     = (Inl (Failure ''Student not found'' None), demoStore)"
proof -
  have n: "findById stu_id (students demoStore) (Str ''zz'') = None" by (simp add: ex_defs)
  show ?thesis
    using n transferStudent_checks_target_before_student[of "Str ''zz''" Undefined Undefined 0 demoStore Undefined superTok]
      transferStudent_checks_target_before_student[of "Str ''zz''" "Str ''s2''" Undefined 0 demoStore Undefined superTok]
    by simp
qed

text \<open>No student \<open>zz\<close> exists, and no target is given: the answer is the missing-target
  error.\<close>

theorem transfer_check_order_counterexample:
  "findById stu_id (students demoStore) (Str ''zz'') = None \<and>
   transferStudent 0 demoStore (Str ''zz'') Undefined Undefined Undefined (Some superTok)
     = (Inl (Failure ''At least one of toSchoolId or toClassroomId is required'' None), demoStore)"
  by (simp add: transferStudent_def ex_defs)

section \<open>Classroom capacity at enrolment\<close>




section \<open>Soft delete\<close>

lemma deleteSchool_twice:
  "deleteSchool st i tok = (Inr ok, st') \<Longrightarrow>
   deleteSchool st' i tok = (Inl (Failure ''School is already inactive'' None), st')"
  by (auto simp: deleteSchool_def Let_def findById_saveDoc split: option.splits if_splits)

lemma deleteClassroom_twice:
  "deleteClassroom st i tok = (Inr ok, st') \<Longrightarrow>
   deleteClassroom st' i tok = (Inl (Failure ''Classroom is already inactive'' None), st')"
  by (auto simp: deleteClassroom_def Let_def findById_saveDoc split: option.splits if_splits)

lemma deleteStudent_twice:
  "deleteStudent st i tok = (Inr ok, st') \<Longrightarrow>
   deleteStudent st' i tok = (Inl (Failure ''Student is already unenrolled'' None), st')"
  by (auto simp: deleteStudent_def Let_def findById_saveDoc split: option.splits if_splits)

lemma deleteSchool_succeeds:
  assumes "tok_role t = ''superadmin''" and "truthy i"
    and "findById sch_id (schools st) i = Some school" and "sch_isActive school"
    and "countActiveClassroomsOfSchool st (toString i) = 0"
    and "countActiveStudentsOfSchool st (toString i) = 0"
  shows "deleteSchool st i (Some t)
     = (Inr (''School deleted successfully'', school\<lparr>sch_isActive := False\<rparr>),
        st\<lparr>schools := saveDoc sch_id (school\<lparr>sch_isActive := False\<rparr>) (schools st)\<rparr>)"
  using assms by (simp add: deleteSchool_def checkSuperadminAccess_def Let_def)

lemma deleteClassroom_succeeds:
  assumes "tok_role t = ''superadmin'' \<or>
           (tok_role t = ''school_admin'' \<and> tokenSchoolId t = Some (cls_schoolId classroom))"
    and "truthy j"
    and "findById cls_id (classrooms st) j = Some classroom" and "cls_isActive classroom"
    and "countActiveInClassroom st (toString j) = 0"
  shows "deleteClassroom st j (Some t)
     = (Inr (''Classroom deleted successfully'', classroom\<lparr>cls_isActive := False\<rparr>),
        st\<lparr>classrooms := saveDoc cls_id (classroom\<lparr>cls_isActive := False\<rparr>) (classrooms st)\<rparr>)"
  using assms
  by (auto simp: deleteClassroom_def Classroom_checkSchoolAccess_def Let_def toString_def)

lemma deleteStudent_succeeds:
  assumes "tok_role t = ''superadmin'' \<or>
           (tok_role t = ''school_admin'' \<and> tokenSchoolId t = Some (stu_schoolId student))"
    and "truthy k"
    and "findById stu_id (students st) k = Some student" and "stu_isActive student"
  shows "deleteStudent st k (Some t)
     = (Inr (''Student unenrolled successfully'', student\<lparr>stu_isActive := False, stu_classroomId := None\<rparr>),
        st\<lparr>students := saveDoc stu_id (student\<lparr>stu_isActive := False, stu_classroomId := None\<rparr>)
              (students st)\<rparr>)"
  using assms
  by (auto simp: deleteStudent_def Student_checkSchoolAccess_def Let_def toString_def preSave_def)

text \<open>
  Claim C8. A soft delete succeeds when the caller is authorised (a superadmin; for a
  classroom or a student also the admin of its school), the entity exists and is active and,
  for a school or a classroom, has no active children. It then returns the entity with
  \<open>isActive = false\<close> (a student also without its classroom) and stores it so. The same call
  made again on the resulting store returns the already-inactive error (``School is already
  inactive'', ``Classroom is already inactive'', ``Student is already unenrolled'') and leaves
  that store as it is.
\<close>

theorem softDelete_twice:
  "(tok_role t = ''superadmin'' \<and> truthy i \<and>
    findById sch_id (schools st) i = Some school \<and> sch_isActive school \<and>
    countActiveClassroomsOfSchool st (toString i) = 0 \<and>
    countActiveStudentsOfSchool st (toString i) = 0 \<longrightarrow>
      deleteSchool st i (Some t)
        = (Inr (''School deleted successfully'', school\<lparr>sch_isActive := False\<rparr>),
           st\<lparr>schools := saveDoc sch_id (school\<lparr>sch_isActive := False\<rparr>) (schools st)\<rparr>) \<and>
      findById sch_id (schools (snd (deleteSchool st i (Some t)))) i
        = Some (school\<lparr>sch_isActive := False\<rparr>) \<and>
      deleteSchool (snd (deleteSchool st i (Some t))) i (Some t)
        = (Inl (Failure ''School is already inactive'' None), snd (deleteSchool st i (Some t)))) \<and>
   ((tok_role u = ''superadmin'' \<or>
       (tok_role u = ''school_admin'' \<and> tokenSchoolId u = Some (cls_schoolId classroom))) \<and>
    truthy j \<and> findById cls_id (classrooms st) j = Some classroom \<and> cls_isActive classroom \<and>
    countActiveInClassroom st (toString j) = 0 \<longrightarrow>
      deleteClassroom st j (Some u)
        = (Inr (''Classroom deleted successfully'', classroom\<lparr>cls_isActive := False\<rparr>),
           st\<lparr>classrooms := saveDoc cls_id (classroom\<lparr>cls_isActive := False\<rparr>) (classrooms st)\<rparr>) \<and>
      findById cls_id (classrooms (snd (deleteClassroom st j (Some u)))) j
        = Some (classroom\<lparr>cls_isActive := False\<rparr>) \<and>
      deleteClassroom (snd (deleteClassroom st j (Some u))) j (Some u)
        = (Inl (Failure ''Classroom is already inactive'' None), snd (deleteClassroom st j (Some u)))) \<and>
   ((tok_role w = ''superadmin'' \<or>
       (tok_role w = ''school_admin'' \<and> tokenSchoolId w = Some (stu_schoolId student))) \<and>
    truthy k \<and> findById stu_id (students st) k = Some student \<and> stu_isActive student \<longrightarrow>
      deleteStudent st k (Some w)
        = (Inr (''Student unenrolled successfully'',
                student\<lparr>stu_isActive := False, stu_classroomId := None\<rparr>),
           st\<lparr>students := saveDoc stu_id (student\<lparr>stu_isActive := False, stu_classroomId := None\<rparr>)
                 (students st)\<rparr>) \<and>
      findById stu_id (students (snd (deleteStudent st k (Some w)))) k
        = Some (student\<lparr>stu_isActive := False, stu_classroomId := None\<rparr>) \<and>
      deleteStudent (snd (deleteStudent st k (Some w))) k (Some w)
        = (Inl (Failure ''Student is already unenrolled'' None), snd (deleteStudent st k (Some w))))"
proof (intro conjI impI)
  assume a: "tok_role t = ''superadmin'' \<and> truthy i \<and>
    findById sch_id (schools st) i = Some school \<and> sch_isActive school \<and>
    countActiveClassroomsOfSchool st (toString i) = 0 \<and>
    countActiveStudentsOfSchool st (toString i) = 0"
  then have ok: "deleteSchool st i (Some t)
        = (Inr (''School deleted successfully'', school\<lparr>sch_isActive := False\<rparr>),
           st\<lparr>schools := saveDoc sch_id (school\<lparr>sch_isActive := False\<rparr>) (schools st)\<rparr>)"
    using deleteSchool_succeeds by blast
  show "deleteSchool st i (Some t)
        = (Inr (''School deleted successfully'', school\<lparr>sch_isActive := False\<rparr>),
           st\<lparr>schools := saveDoc sch_id (school\<lparr>sch_isActive := False\<rparr>) (schools st)\<rparr>)"
    by (rule ok)
  show "findById sch_id (schools (snd (deleteSchool st i (Some t)))) i
        = Some (school\<lparr>sch_isActive := False\<rparr>)"
    using a by (simp add: ok findById_saveDoc)
  show "deleteSchool (snd (deleteSchool st i (Some t))) i (Some t)
        = (Inl (Failure ''School is already inactive'' None), snd (deleteSchool st i (Some t)))"
    using deleteSchool_twice[OF ok] by (simp add: ok)
next
  assume a: "(tok_role u = ''superadmin'' \<or>
       (tok_role u = ''school_admin'' \<and> tokenSchoolId u = Some (cls_schoolId classroom))) \<and>
    truthy j \<and> findById cls_id (classrooms st) j = Some classroom \<and> cls_isActive classroom \<and>
    countActiveInClassroom st (toString j) = 0"
  then have ok: "deleteClassroom st j (Some u)
        = (Inr (''Classroom deleted successfully'', classroom\<lparr>cls_isActive := False\<rparr>),
           st\<lparr>classrooms := saveDoc cls_id (classroom\<lparr>cls_isActive := False\<rparr>) (classrooms st)\<rparr>)"
    using deleteClassroom_succeeds by blast
  show "deleteClassroom st j (Some u)
        = (Inr (''Classroom deleted successfully'', classroom\<lparr>cls_isActive := False\<rparr>),
           st\<lparr>classrooms := saveDoc cls_id (classroom\<lparr>cls_isActive := False\<rparr>) (classrooms st)\<rparr>)"
    by (rule ok)
  show "findById cls_id (classrooms (snd (deleteClassroom st j (Some u)))) j
        = Some (classroom\<lparr>cls_isActive := False\<rparr>)"
    using a by (simp add: ok findById_saveDoc)
  show "deleteClassroom (snd (deleteClassroom st j (Some u))) j (Some u)
        = (Inl (Failure ''Classroom is already inactive'' None), snd (deleteClassroom st j (Some u)))"
    using deleteClassroom_twice[OF ok] by (simp add: ok)
next
  assume a: "(tok_role w = ''superadmin'' \<or>
       (tok_role w = ''school_admin'' \<and> tokenSchoolId w = Some (stu_schoolId student))) \<and>
    truthy k \<and> findById stu_id (students st) k = Some student \<and> stu_isActive student"
  then have ok: "deleteStudent st k (Some w)
        = (Inr (''Student unenrolled successfully'',
                student\<lparr>stu_isActive := False, stu_classroomId := None\<rparr>),
           st\<lparr>students := saveDoc stu_id (student\<lparr>stu_isActive := False, stu_classroomId := None\<rparr>)
                 (students st)\<rparr>)"
    using deleteStudent_succeeds by blast
  show "deleteStudent st k (Some w)
        = (Inr (''Student unenrolled successfully'',
                student\<lparr>stu_isActive := False, stu_classroomId := None\<rparr>),
           st\<lparr>students := saveDoc stu_id (student\<lparr>stu_isActive := False, stu_classroomId := None\<rparr>)
                 (students st)\<rparr>)"
    by (rule ok)
  show "findById stu_id (students (snd (deleteStudent st k (Some w)))) k
        = Some (student\<lparr>stu_isActive := False, stu_classroomId := None\<rparr>)"
    using a by (simp add: ok findById_saveDoc)
  show "deleteStudent (snd (deleteStudent st k (Some w))) k (Some w)
        = (Inl (Failure ''Student is already unenrolled'' None), snd (deleteStudent st k (Some w)))"
    using deleteStudent_twice[OF ok] by (simp add: ok)
qed

theorem softDelete_twice_witness:
  "deleteSchool demoStore (Str ''s3'') (Some superTok)
     = (Inr (''School deleted successfully'', (mkSchool ''s3'' ''Lake School'')\<lparr>sch_isActive := False\<rparr>),
        demoStore\<lparr>schools := saveDoc sch_id ((mkSchool ''s3'' ''Lake School'')\<lparr>sch_isActive := False\<rparr>)
                                  (schools demoStore)\<rparr>) \<and>
   deleteSchool (snd (deleteSchool demoStore (Str ''s3'') (Some superTok))) (Str ''s3'') (Some superTok)
     = (Inl (Failure ''School is already inactive'' None),
        snd (deleteSchool demoStore (Str ''s3'') (Some superTok))) \<and>
   deleteClassroom demoStore (Str ''c2'') (Some superTok)
     = (Inr (''Classroom deleted successfully'', (mkClassroom ''c2'' ''Room 2'' ''s2'' 30)\<lparr>cls_isActive := False\<rparr>),
        demoStore\<lparr>classrooms := saveDoc cls_id ((mkClassroom ''c2'' ''Room 2'' ''s2'' 30)\<lparr>cls_isActive := False\<rparr>)
                                     (classrooms demoStore)\<rparr>) \<and>
   deleteClassroom (snd (deleteClassroom demoStore (Str ''c2'') (Some superTok))) (Str ''c2'') (Some superTok)
     = (Inl (Failure ''Classroom is already inactive'' None),
        snd (deleteClassroom demoStore (Str ''c2'') (Some superTok))) \<and>
   deleteStudent demoStore (Str ''a1'') (Some adminTok)
     = (Inr (''Student unenrolled successfully'',
             (mkStudent ''a1'' ''Ann'' ''s1'' (Some ''c1'') True)\<lparr>stu_isActive := False, stu_classroomId := None\<rparr>),
        demoStore\<lparr>students := saveDoc stu_id
           ((mkStudent ''a1'' ''Ann'' ''s1'' (Some ''c1'') True)\<lparr>stu_isActive := False, stu_classroomId := None\<rparr>)
           (students demoStore)\<rparr>) \<and>
   deleteStudent (snd (deleteStudent demoStore (Str ''a1'') (Some adminTok))) (Str ''a1'') (Some adminTok)
     = (Inl (Failure ''Student is already unenrolled'' None),
        snd (deleteStudent demoStore (Str ''a1'') (Some adminTok)))"
proof -
  have s: "tok_role superTok = ''superadmin'' \<and> truthy (Str ''s3'') \<and>
    findById sch_id (schools demoStore) (Str ''s3'') = Some (mkSchool ''s3'' ''Lake School'') \<and>
    sch_isActive (mkSchool ''s3'' ''Lake School'') \<and>
    countActiveClassroomsOfSchool demoStore (toString (Str ''s3'')) = 0 \<and>
    countActiveStudentsOfSchool demoStore (toString (Str ''s3'')) = 0"
    by (simp add: ex_defs)
  have c: "(tok_role superTok = ''superadmin'' \<or>
       (tok_role superTok = ''school_admin'' \<and>
        tokenSchoolId superTok = Some (cls_schoolId (mkClassroom ''c2'' ''Room 2'' ''s2'' 30)))) \<and>
    truthy (Str ''c2'') \<and>
    findById cls_id (classrooms demoStore) (Str ''c2'') = Some (mkClassroom ''c2'' ''Room 2'' ''s2'' 30) \<and>
    cls_isActive (mkClassroom ''c2'' ''Room 2'' ''s2'' 30) \<and>
    countActiveInClassroom demoStore (toString (Str ''c2'')) = 0"
    by (simp add: ex_defs)
  have d: "(tok_role adminTok = ''superadmin'' \<or>
       (tok_role adminTok = ''school_admin'' \<and>
        tokenSchoolId adminTok = Some (stu_schoolId (mkStudent ''a1'' ''Ann'' ''s1'' (Some ''c1'') True)))) \<and>
    truthy (Str ''a1'') \<and>
    findById stu_id (students demoStore) (Str ''a1'') = Some (mkStudent ''a1'' ''Ann'' ''s1'' (Some ''c1'') True) \<and>
    stu_isActive (mkStudent ''a1'' ''Ann'' ''s1'' (Some ''c1'') True)"
    by (simp add: ex_defs)
  show ?thesis
    using s c d
      softDelete_twice[where t = superTok and i = "Str ''s3''" and st = demoStore
        and school = "mkSchool ''s3'' ''Lake School''"
        and u = superTok and j = "Str ''c2''" and classroom = "mkClassroom ''c2'' ''Room 2'' ''s2'' 30"
        and w = adminTok and k = "Str ''a1''"
        and student = "mkStudent ''a1'' ''Ann'' ''s1'' (Some ''c1'') True"]
    by blast
qed

section \<open>Deactivating a student\<close>

lemma filter_active_saveDoc:
  assumes "\<not> stu_isActive s"
  shows "filter (\<lambda>x. stu_classroomId x = Some c \<and> stu_isActive x) (saveDoc stu_id s xs)
         = filter (\<lambda>x. stu_id x \<noteq> stu_id s) (filter (\<lambda>x. stu_classroomId x = Some c \<and> stu_isActive x) xs)"
  using assms by (induction xs) (auto simp: saveDoc_def)

lemma count_deactivation_le:
  assumes "\<not> stu_isActive s"
  shows "countActiveInClassroom (st\<lparr>students := saveDoc stu_id s (students st)\<rparr>) c
         \<le> countActiveInClassroom st c"
proof -
  have "countActiveInClassroom (st\<lparr>students := saveDoc stu_id s (students st)\<rparr>) c
        = length (filter (\<lambda>x. stu_id x \<noteq> stu_id s)
            (filter (\<lambda>x. stu_classroomId x = Some c \<and> stu_isActive x) (students st)))"
    unfolding countActiveInClassroom_def using filter_active_saveDoc[OF assms] by simp
  also have "\<dots> \<le> length (filter (\<lambda>x. stu_classroomId x = Some c \<and> stu_isActive x) (students st))"
    by (rule length_filter_le)
  finally show ?thesis unfolding countActiveInClassroom_def .
qed

lemma count_deactivation_less:
  assumes "\<not> stu_isActive s" and "student \<in> set (students st)" and "stu_id student = stu_id s"
    and "stu_isActive student" and "stu_classroomId student = Some c"
  shows "countActiveInClassroom (st\<lparr>students := saveDoc stu_id s (students st)\<rparr>) c
         < countActiveInClassroom st c"
proof -
  have "countActiveInClassroom (st\<lparr>students := saveDoc stu_id s (students st)\<rparr>) c
        = length (filter (\<lambda>x. stu_id x \<noteq> stu_id s)
            (filter (\<lambda>x. stu_classroomId x = Some c \<and> stu_isActive x) (students st)))"
    unfolding countActiveInClassroom_def using filter_active_saveDoc[OF assms(1)] by simp
  also have "\<dots> < length (filter (\<lambda>x. stu_classroomId x = Some c \<and> stu_isActive x) (students st))"
  proof (rule length_filter_less[of student])
    show "student \<in> set (filter (\<lambda>x. stu_classroomId x = Some c \<and> stu_isActive x) (students st))"
      using assms by simp
    show "\<not> stu_id student \<noteq> stu_id s" using assms(3) by simp
  qed
  finally show ?thesis unfolding countActiveInClassroom_def .
qed

lemma filter_same_id:
  "distinct (map f xs) \<Longrightarrow> x \<in> set xs \<Longrightarrow> filter (\<lambda>y. f y = f x) xs = [x]"
proof (induction xs)
  case Nil
  then show ?case by simp
next
  case (Cons a xs)
  show ?case
  proof (cases "a = x")
    case True
    from Cons.prems True have "f x \<notin> f ` set xs" by simp
    then have "\<forall>y \<in> set xs. f y \<noteq> f x" by (metis imageI)
    then have "filter (\<lambda>y. f y = f x) xs = []" by (simp add: filter_empty_conv)
    with True show ?thesis by simp
  next
    case False
    with Cons.prems have x: "x \<in> set xs" and "f a \<noteq> f x" by auto
    with Cons.IH Cons.prems show ?thesis by simp
  qed
qed

lemma count_deactivation_exact:
  assumes "\<not> stu_isActive s" and "student \<in> set (students st)" and "stu_id student = stu_id s"
    and "distinct (map stu_id (students st))"
  shows "countActiveInClassroom st c
         = countActiveInClassroom (st\<lparr>students := saveDoc stu_id s (students st)\<rparr>) c
           + (if stu_isActive student \<and> stu_classroomId student = Some c then 1 else 0)"
proof -
  let ?P = "\<lambda>x. stu_classroomId x = Some c \<and> stu_isActive x"
  let ?xs = "students st"
  have new: "countActiveInClassroom (st\<lparr>students := saveDoc stu_id s ?xs\<rparr>) c
        = length (filter (\<lambda>x. stu_id x \<noteq> stu_id s) (filter ?P ?xs))"
    unfolding countActiveInClassroom_def using filter_active_saveDoc[OF assms(1)] by simp
  have split: "length (filter ?P ?xs)
        = length (filter (\<lambda>x. stu_id x \<noteq> stu_id s) (filter ?P ?xs))
          + length (filter (\<lambda>x. \<not> stu_id x \<noteq> stu_id s) (filter ?P ?xs))"
    using sum_length_filter_compl[of "\<lambda>x. stu_id x \<noteq> stu_id s" "filter ?P ?xs"] by simp
  have "filter (\<lambda>x. \<not> stu_id x \<noteq> stu_id s) (filter ?P ?xs)
        = filter ?P (filter (\<lambda>y. stu_id y = stu_id student) ?xs)"
    using assms(3) by (simp add: conj_commute)
  also have "\<dots> = filter ?P [student]"
    using filter_same_id[OF assms(4,2)] by simp
  finally have "length (filter (\<lambda>x. \<not> stu_id x \<noteq> stu_id s) (filter ?P ?xs))
        = (if stu_isActive student \<and> stu_classroomId student = Some c then 1 else 0)"
    by auto
  with split new show ?thesis unfolding countActiveInClassroom_def by simp
qed

text \<open>
  Claim C10, as amended. When \<open>updateStudent\<close> succeeds with \<open>isActive = false\<close> and no
  \<open>classroomId\<close> argument, the stored student keeps the \<open>classroomId\<close> it had and is
  inactive. No classroom has more active students than before, and the classroom of a
  student who was active has fewer. With student ids unique, as \<open>_id\<close> is, the count of that
  classroom drops by exactly one, so that the capacity check sees the seat as free, and
  every other count stays (as do all counts when the student was inactive already). When
  \<open>deleteStudent\<close> succeeds, the stored student is inactive and its \<open>classroomId\<close> is null.
\<close>

theorem updateStudent_deactivation_keeps_classroom:
  "(updateStudent st studentId d Undefined (Some False) tok = (Inr s, st') \<longrightarrow>
      (\<exists>student. findById stu_id (students st) studentId = Some student
         \<and> findById stu_id (students st') studentId = Some s
         \<and> stu_classroomId s = stu_classroomId student \<and> \<not> stu_isActive s
         \<and> countActiveInClassroom st' c \<le> countActiveInClassroom st c
         \<and> (stu_isActive student \<and> stu_classroomId student = Some c \<longrightarrow>
              countActiveInClassroom st' c < countActiveInClassroom st c)
         \<and> (distinct (map stu_id (students st)) \<longrightarrow>
              countActiveInClassroom st c
                = countActiveInClassroom st' c
                  + (if stu_isActive student \<and> stu_classroomId student = Some c then 1 else 0)))) \<and>
   (deleteStudent st studentId' tok' = (Inr (m, s''), st'') \<longrightarrow>
      findById stu_id (students st'') studentId' = Some s''
         \<and> stu_classroomId s'' = None \<and> \<not> stu_isActive s'')"
proof -
  have a: "\<exists>student. findById stu_id (students st) studentId = Some student
         \<and> findById stu_id (students st') studentId = Some s
         \<and> stu_classroomId s = stu_classroomId student \<and> \<not> stu_isActive s
         \<and> countActiveInClassroom st' c \<le> countActiveInClassroom st c
         \<and> (stu_isActive student \<and> stu_classroomId student = Some c \<longrightarrow>
              countActiveInClassroom st' c < countActiveInClassroom st c)
         \<and> (distinct (map stu_id (students st)) \<longrightarrow>
              countActiveInClassroom st c
                = countActiveInClassroom st' c
                  + (if stu_isActive student \<and> stu_classroomId student = Some c then 1 else 0))"
    if u: "updateStudent st studentId d Undefined (Some False) tok = (Inr s, st')"
  proof -
    from updateStudent_written[OF u] obtain student where
      f: "findById stu_id (students st) studentId = Some student"
      and i: "stu_id s = stu_id student"
      and c: "stu_classroomId s = stu_classroomId student" "\<not> stu_isActive s"
      and st': "st' = st\<lparr>students := saveDoc stu_id s (students st)\<rparr>"
      by auto
    have mem: "student \<in> set (students st)" using findById_id[OF f] by simp
    have le: "countActiveInClassroom st' c \<le> countActiveInClassroom st c"
      using count_deactivation_le[OF c(2)] st' by simp
    have less: "countActiveInClassroom st' c < countActiveInClassroom st c"
      if "stu_isActive student" "stu_classroomId student = Some c"
      using count_deactivation_less[OF c(2) mem i[symmetric] that] st' by simp
    have exact: "countActiveInClassroom st c
                = countActiveInClassroom st' c
                  + (if stu_isActive student \<and> stu_classroomId student = Some c then 1 else 0)"
      if "distinct (map stu_id (students st))"
      using count_deactivation_exact[OF c(2) mem i[symmetric] that] st' by simp
    from findById_saveDoc[OF f i] st' f c le less exact show ?thesis by simp
  qed
  have b: "findById stu_id (students st'') studentId' = Some s''
         \<and> stu_classroomId s'' = None \<and> \<not> stu_isActive s''"
    if "deleteStudent st studentId' tok' = (Inr (m, s''), st'')"
    using that
    by (auto simp: deleteStudent_def Let_def findById_saveDoc split: option.splits if_splits)
  from a b show ?thesis by blast
qed

theorem updateStudent_deactivation_keeps_classroom_witness:
  "\<not> isl (fst (updateStudent demoStore (Str ''a1'') noData Undefined (Some False) (Some adminTok))) \<and>
   stu_classroomId (projr (fst (updateStudent demoStore (Str ''a1'') noData Undefined (Some False) (Some adminTok))))
     = Some ''c1'' \<and>
   \<not> stu_isActive (projr (fst (updateStudent demoStore (Str ''a1'') noData Undefined (Some False) (Some adminTok)))) \<and>
   distinct (map stu_id (students demoStore)) \<and>
   countActiveInClassroom demoStore ''c1''
     = countActiveInClassroom (snd (updateStudent demoStore (Str ''a1'') noData Undefined (Some False) (Some adminTok))) ''c1'' + 1 \<and>
   \<not> isl (fst (deleteStudent demoStore (Str ''a1'') (Some adminTok))) \<and>
   stu_classroomId (snd (projr (fst (deleteStudent demoStore (Str ''a1'') (Some adminTok))))) = None"
proof -
  have "\<exists>s st'. updateStudent demoStore (Str ''a1'') noData Undefined (Some False) (Some adminTok) = (Inr s, st')"
    by (simp add: updateStudent_def moveClassroomCheck_def setIfDefined_def ex_defs)
  then obtain s st' where u:
    "updateStudent demoStore (Str ''a1'') noData Undefined (Some False) (Some adminTok) = (Inr s, st')"
    by blast
  have "\<exists>m s st'. deleteStudent demoStore (Str ''a1'') (Some adminTok) = (Inr (m, s), st')"
    by (simp add: deleteStudent_def ex_defs)
  then obtain m s'' st'' where d:
    "deleteStudent demoStore (Str ''a1'') (Some adminTok) = (Inr (m, s''), st'')"
    by blast
  have f: "findById stu_id (students demoStore) (Str ''a1'') = Some (mkStudent ''a1'' ''Ann'' ''s1'' (Some ''c1'') True)"
    by (simp add: ex_defs)
  have dist: "distinct (map stu_id (students demoStore))"
    by (simp add: ex_defs)
  show ?thesis
    using updateStudent_deactivation_keeps_classroom[of demoStore "Str ''a1''" noData "Some adminTok" s st'
        "''c1''" "Str ''a1''" "Some adminTok" m s'' st''] u d f dist
    by (simp add: mkStudent_def)
qed

text \<open>Classroom \<open>c1\<close> has capacity 1 and the active student \<open>a1\<close>: an enrolment into it is
  refused. After \<open>updateStudent\<close> has deactivated \<open>a1\<close>, who keeps the classroom, \<open>c1\<close> counts
  no active student and the same enrolment succeeds.\<close>

theorem deactivated_student_frees_seat_counterexample:
  "createStudent (\<lambda>d. None) ''n1'' 7 demoStore Undefined (Str ''c1'') noData (Some adminTok)
     = (Inl (Failure ''Classroom is at full capacity'' None), demoStore) \<and>
   \<not> isl (fst (updateStudent demoStore (Str ''a1'') noData Undefined (Some False) (Some adminTok))) \<and>
   countActiveInClassroom
     (snd (updateStudent demoStore (Str ''a1'') noData Undefined (Some False) (Some adminTok))) ''c1'' = 0 \<and>
   \<not> isl (fst (createStudent (\<lambda>d. None) ''n1'' 7
      (snd (updateStudent demoStore (Str ''a1'') noData Undefined (Some False) (Some adminTok)))
      Undefined (Str ''c1'') noData (Some adminTok)))"
  by (simp add: createStudent_def enrolClassroomCheck_def updateStudent_def moveClassroomCheck_def
      setIfDefined_def ex_defs)

end
